theory Spec2Isabelle
  imports Main "HOL-Library.AList"
begin

section \<open>Python values, JSON documents and exceptions\<close>

text \<open>
  A Python float is kept only as far as \<^verbatim>\<open>math.isnan\<close> and truthiness can see it:
  the not-a-number value, the two infinities, or a finite value \<open>m * 2 ^ e\<close>.
\<close>

datatype pyfloat = NaN | PosInf | NegInf | Finite int int

text \<open>
  The cell values of a row. \<open>PTemporal s\<close> is any object that has an \<^verbatim>\<open>isoformat()\<close>
  method (a timestamp, a date, pandas' \<^verbatim>\<open>NaT\<close>); \<open>s\<close> is the string that method returns.
  No other cell value has that method.
\<close>

datatype pyval =
    PNone
  | PBool bool
  | PInt int
  | PFloat pyfloat
  | PStr string
  | PTemporal string

text \<open>
  What \<^verbatim>\<open>response.json()\<close> returns and what \<^verbatim>\<open>json.dumps\<close> is given. Python's \<^verbatim>\<open>None\<close> is
  \<open>JNull\<close>; a \<^verbatim>\<open>dict\<close> with string keys is an association list read with \<^const>\<open>map_of\<close>.
\<close>

datatype json =
    JNull
  | JBool bool
  | JInt int
  | JFloat pyfloat
  | JStr string
  | JArr "json list"
  | JObj "(string \<times> json) list"

text \<open>
  The format templates of \<^verbatim>\<open>powerbi.py\<close> with their arguments. The adapter's literal
  \<^verbatim>\<open>"https://api.powerbi.com/v1.0/myorg/datasets/{}/tables/{}/rows"\<close> is
  \<open>TABLE_ROWS_API DATASETS_API dsid table\<close>.
\<close>

datatype url =
    GROUPS_API
  | DATASETS_API
  | GROUP_DATASETS_API json
  | DATASET_URL url json
  | TABLE_ROWS_API url json string

datatype request = GET url | POST url json | DELETE url

record response =
  status_code :: int
  content :: string
  resp_json :: "json option"
  content_type :: "string option"

text \<open>
  \<open>resp_json\<close> is the outcome of \<^verbatim>\<open>response.json()\<close>: \<open>None\<close> when the body is not JSON and
  the call raises \<^verbatim>\<open>ValueError\<close>. \<open>content_type\<close> is \<^verbatim>\<open>response.headers.get('content-type')\<close>.
\<close>

datatype activity = Deleting json | RetrievingAccessToken

text \<open>The messages of the exceptions the plugin raises itself, as template and arguments.\<close>

datatype message =
    Text string
  | ErrorStatus int json
  | ErrorWhile int activity string
  | DateNotFormatted pyval
  | WorkspaceMissing string

datatype error =
    AttributeError
  | KeyError string
  | TypeError
  | ValueError
  | OverflowError
  | SystemExit string
  | Exception message

text \<open>Lines written with \<^verbatim>\<open>print\<close> or through the module's logger.\<close>

datatype line =
    LookingForDatasets
  | CreatedDataset json
  | ExistingDatasets "json list"
  | WillUseDataset json
  | Inserted nat int
  | MayIndicateIssue int
  | ApiResponse json
  | LoadingComplete
  | Summary json
  | InfoDeleted json int
  | LogError message

text \<open>
  The world outside the process: the HTTP requests issued so far, oldest first, and the
  lines written. The remote service is a function from the history of requests, the
  current one last, to the response it gives.
\<close>

record world =
  requests :: "request list"
  printed :: "line list"

type_synonym server = "request list \<Rightarrow> response"

definition send :: "server \<Rightarrow> request \<Rightarrow> world \<Rightarrow> response \<times> world" where
  "send srv rq w = (let h = requests w @ [rq] in (srv h, w\<lparr>requests := h\<rparr>))"

definition emit :: "line \<Rightarrow> world \<Rightarrow> world" where
  "emit l w = w\<lparr>printed := printed w @ [l]\<rparr>"

subsection \<open>Dynamic operations on parsed JSON\<close>

text \<open>\<^verbatim>\<open>d.get(key, default)\<close>: only a dict has the method.\<close>

fun py_get :: "json \<Rightarrow> string \<Rightarrow> json \<Rightarrow> error + json" where
  "py_get (JObj kvs) k dflt = Inr (case map_of kvs k of Some v \<Rightarrow> v | None \<Rightarrow> dflt)"
| "py_get _ k dflt = Inl AttributeError"

text \<open>\<^verbatim>\<open>d[key]\<close> with a string key.\<close>

fun py_index :: "json \<Rightarrow> string \<Rightarrow> error + json" where
  "py_index (JObj kvs) k = (case map_of kvs k of Some v \<Rightarrow> Inr v | None \<Rightarrow> Inl (KeyError k))"
| "py_index _ k = Inl TypeError"

text \<open>\<^verbatim>\<open>for x in v\<close>: a list gives its elements, a dict its keys, a string its characters.\<close>

fun py_iter :: "json \<Rightarrow> error + json list" where
  "py_iter (JArr xs) = Inr xs"
| "py_iter (JObj kvs) = Inr (map (\<lambda>kv. JStr (fst kv)) kvs)"
| "py_iter (JStr s) = Inr (map (\<lambda>c. JStr [c]) s)"
| "py_iter _ = Inl TypeError"

text \<open>Truth value of \<^verbatim>\<open>if v:\<close>.\<close>

fun truthy :: "json \<Rightarrow> bool" where
  "truthy JNull = False"
| "truthy (JBool b) = b"
| "truthy (JInt i) = (i \<noteq> 0)"
| "truthy (JFloat (Finite m e)) = (m \<noteq> 0)"
| "truthy (JFloat _) = True"
| "truthy (JStr s) = (s \<noteq> [])"
| "truthy (JArr xs) = (xs \<noteq> [])"
| "truthy (JObj kvs) = (kvs \<noteq> [])"

text \<open>\<^verbatim>\<open>needle in haystack\<close> on strings, and \<^verbatim>\<open>haystack.find(needle) >= 0\<close>.\<close>

fun startswith :: "string \<Rightarrow> string \<Rightarrow> bool" where
  "startswith s [] = True"
| "startswith [] (p # ps) = False"
| "startswith (c # cs) (p # ps) = (c = p \<and> startswith cs ps)"

fun contains :: "string \<Rightarrow> string \<Rightarrow> bool" where
  "contains [] needle = (needle = [])"
| "contains (c # cs) needle = (startswith (c # cs) needle \<or> contains cs needle)"

text \<open>\<^verbatim>\<open>key in v\<close> for a string key.\<close>

fun py_in :: "string \<Rightarrow> json \<Rightarrow> error + bool" where
  "py_in k (JObj kvs) = Inr (map_of kvs k \<noteq> None)"
| "py_in k (JArr xs) = Inr (JStr k \<in> set xs)"
| "py_in k (JStr s) = Inr (contains s k)"
| "py_in k _ = Inl TypeError"

text \<open>
  \<^verbatim>\<open>s.lower()\<close>: only a string has the method. What the method makes of a text is
  Python's own business (on a unicode string it lowercases every cased letter, not the ASCII
  ones alone), so the functions that call it take it as their parameter \<open>lower\<close> and
  what is proved of them holds whatever it computes.
\<close>

fun py_lower :: "(string \<Rightarrow> string) \<Rightarrow> json \<Rightarrow> error + string" where
  "py_lower lower (JStr s) = Inr (lower s)"
| "py_lower lower _ = Inl AttributeError"

text \<open>\<^verbatim>\<open>str(n)\<close> of an integer.\<close>

fun digits :: "nat \<Rightarrow> string" where
  "digits n = (if n < 10 then [char_of (48 + n)] else digits (n div 10) @ [char_of (48 + n mod 10)])"

declare digits.simps [simp del]

definition str_int :: "int \<Rightarrow> string" where
  "str_int i = (if i < 0 then CHR ''-'' # digits (nat (- i)) else digits (nat i))"

section \<open>The service client (powerbi.py)\<close>

text \<open>\<^verbatim>\<open>fieldSetterMap\<close>, the data types mapping DSS to Power BI.\<close>

definition fieldSetterMap :: "(string \<times> string) list" where
  "fieldSetterMap =
     [(''boolean'', ''Boolean''),
      (''tinyint'', ''Int64''),
      (''smallint'', ''Int64''),
      (''int'', ''Int64''),
      (''bigint'', ''Int64''),
      (''float'', ''Double''),
      (''double'', ''Double''),
      (''date'', ''dateTime''),
      (''string'', ''String''),
      (''array'', ''String''),
      (''map'', ''String''),
      (''object'', ''String'')]"

text \<open>A column of the host's schema: \<^verbatim>\<open>column["name"]\<close> and \<^verbatim>\<open>column["type"]\<close>.\<close>

record column =
  col_name :: string
  col_type :: string

type_synonym schema = "column list"

subsection \<open>Error classification\<close>

text \<open>
  \<^verbatim>\<open>get_value_from_path\<close>: the loop over the path, with the exceptions that \<^verbatim>\<open>in\<close> and
  \<^verbatim>\<open>.get\<close> raise on values that are not dicts.
\<close>

fun get_value_from_path :: "json \<Rightarrow> string list \<Rightarrow> json \<Rightarrow> error + json" where
  "get_value_from_path ret [] default_reply = Inr ret"
| "get_value_from_path ret (key # path) default_reply =
     (case py_in key ret of
        Inl e \<Rightarrow> Inl e
      | Inr True \<Rightarrow>
          (case py_get ret key JNull of
             Inl e \<Rightarrow> Inl e
           | Inr v \<Rightarrow> get_value_from_path v path default_reply)
      | Inr False \<Rightarrow> Inr default_reply)"

text \<open>\<^verbatim>\<open>extract_error_message_from_response\<close>: every exception falls back to the raw body.\<close>

definition extract_error_message_from_response :: "response \<Rightarrow> json" where
  "extract_error_message_from_response rsp =
     (case resp_json rsp of
        None \<Rightarrow> JStr (content rsp)
      | Some json_response \<Rightarrow>
          (case get_value_from_path json_response [''error'', ''message''] (JStr (content rsp)) of
             Inl e \<Rightarrow> JStr (content rsp)
           | Inr ret \<Rightarrow> ret))"

definition get_error_message ::
  "response \<Rightarrow> activity option \<Rightarrow> (int \<rightharpoonup> string) \<Rightarrow> message" where
  "get_error_message rsp while_trying custom_error_messages =
     (case custom_error_messages (status_code rsp) of
        Some m \<Rightarrow> Text m
      | None \<Rightarrow>
          (case while_trying of
             None \<Rightarrow> ErrorStatus (status_code rsp) (extract_error_message_from_response rsp)
           | Some a \<Rightarrow> ErrorWhile (status_code rsp) a (content rsp)))"

definition handle_exception_message :: "message \<Rightarrow> bool \<Rightarrow> world \<Rightarrow> error + world" where
  "handle_exception_message m fail_on_errors w =
     (if fail_on_errors then Inl (Exception m) else Inr (emit (LogError m) w))"

definition assert_response_ok ::
  "response \<Rightarrow> activity option \<Rightarrow> bool \<Rightarrow> (int \<rightharpoonup> string) \<Rightarrow> world \<Rightarrow> error + world" where
  "assert_response_ok rsp while_trying fail_on_errors custom_error_messages w =
     (if status_code rsp \<ge> 400
      then handle_exception_message
             (get_error_message rsp while_trying custom_error_messages) fail_on_errors w
      else Inr w)"

definition is_json_response :: "response \<Rightarrow> error + bool" where
  "is_json_response rsp =
     (case content_type rsp of
        None \<Rightarrow> Inl AttributeError
      | Some ct \<Rightarrow> Inr (contains ct ''application/json''))"

subsection \<open>HTTP helpers\<close>

text \<open>
  The bearer-token headers are the same on every request and are left out. \<^verbatim>\<open>post\<close> and
  \<^verbatim>\<open>_delete\<close> return the parsed body when the response is JSON and the response object
  itself otherwise.
\<close>

datatype reply = Parsed json | Raw response

definition get_datasets_base_url :: "json \<Rightarrow> url" where
  "get_datasets_base_url pbi_group_id =
     (if pbi_group_id = JNull then DATASETS_API else GROUP_DATASETS_API pbi_group_id)"

text \<open>
  \<^verbatim>\<open>get\<close> returns the world beside the outcome: when it raises, the request has still been
  made.
\<close>

definition get ::
  "server \<Rightarrow> url \<Rightarrow> (int \<rightharpoonup> string) \<Rightarrow> world \<Rightarrow> (error + json) \<times> world" where
  "get srv u custom_error_messages w =
     (case send srv (GET u) w of
        (rsp, w1) \<Rightarrow>
          (case assert_response_ok rsp None True custom_error_messages w1 of
             Inl e \<Rightarrow> (Inl e, w1)
           | Inr w2 \<Rightarrow>
               (case resp_json rsp of
                  None \<Rightarrow> (Inl ValueError, w2)
                | Some json_response \<Rightarrow> (Inr json_response, w2))))"

definition reply_of :: "response \<Rightarrow> world \<Rightarrow> error + reply \<times> world" where
  "reply_of rsp w =
     (case is_json_response rsp of
        Inl e \<Rightarrow> Inl e
      | Inr True \<Rightarrow>
          (case resp_json rsp of
             None \<Rightarrow> Inl ValueError
           | Some j \<Rightarrow> Inr (Parsed j, w))
      | Inr False \<Rightarrow> Inr (Raw rsp, w))"

definition post :: "server \<Rightarrow> url \<Rightarrow> json \<Rightarrow> bool \<Rightarrow> world \<Rightarrow> error + reply \<times> world" where
  "post srv u data fail_on_errors w =
     (case send srv (POST u data) w of
        (rsp, w1) \<Rightarrow>
          (case assert_response_ok rsp None fail_on_errors Map.empty w1 of
             Inl e \<Rightarrow> Inl e
           | Inr w2 \<Rightarrow> reply_of rsp w2))"

definition delete :: "server \<Rightarrow> url \<Rightarrow> bool \<Rightarrow> world \<Rightarrow> error + reply \<times> world" where
  "delete srv u fail_on_errors w =
     (case send srv (DELETE u) w of
        (rsp, w1) \<Rightarrow>
          (case assert_response_ok rsp None fail_on_errors Map.empty w1 of
             Inl e \<Rightarrow> Inl e
           | Inr w2 \<Rightarrow> reply_of rsp w2))"

subsection \<open>Datasets\<close>

definition get_datasets :: "server \<Rightarrow> json \<Rightarrow> world \<Rightarrow> response \<times> world" where
  "get_datasets srv pbi_group_id w = send srv (GET (get_datasets_base_url pbi_group_id)) w"

text \<open>The loop of \<^verbatim>\<open>get_dataset_by_name\<close>; \<open>ret\<close> is the list built so far.\<close>

fun matching_ids :: "string \<Rightarrow> json list \<Rightarrow> json list \<Rightarrow> error + json list" where
  "matching_ids name [] ret = Inr ret"
| "matching_ids name (dataset # datasets) ret =
     (case py_index dataset ''name'' of
        Inl e \<Rightarrow> Inl e
      | Inr n \<Rightarrow>
          if n = JStr name
          then (case py_index dataset ''id'' of
                  Inl e \<Rightarrow> Inl e
                | Inr i \<Rightarrow> matching_ids name datasets (ret @ [i]))
          else matching_ids name datasets ret)"

definition get_dataset_by_name ::
  "server \<Rightarrow> string \<Rightarrow> json \<Rightarrow> world \<Rightarrow> error + json list \<times> world" where
  "get_dataset_by_name srv name pbi_group_id w =
     (case get_datasets srv pbi_group_id w of
        (data, w1) \<Rightarrow>
          (case resp_json data of
             None \<Rightarrow> Inl ValueError
           | Some j \<Rightarrow>
               (case py_get j ''value'' JNull of
                  Inl e \<Rightarrow> Inl e
                | Inr datasets \<Rightarrow>
                    if truthy datasets
                    then (case py_iter datasets of
                            Inl e \<Rightarrow> Inl e
                          | Inr ds \<Rightarrow>
                              (case matching_ids name ds [] of
                                 Inl e \<Rightarrow> Inl e
                               | Inr ret \<Rightarrow> Inr (ret, w1)))
                    else Inr ([], w1))))"

definition delete_dataset :: "server \<Rightarrow> json \<Rightarrow> json \<Rightarrow> world \<Rightarrow> error + response \<times> world" where
  "delete_dataset srv dsid pbi_group_id w =
     (case send srv (DELETE (DATASET_URL (get_datasets_base_url pbi_group_id) dsid)) w of
        (rsp, w1) \<Rightarrow>
          (case assert_response_ok rsp (Some (Deleting dsid)) True Map.empty w1 of
             Inl e \<Rightarrow> Inl e
           | Inr w2 \<Rightarrow> Inr (rsp, emit (InfoDeleted dsid (status_code rsp)) w2)))"

definition empty_dataset ::
  "server \<Rightarrow> json \<Rightarrow> string \<Rightarrow> json \<Rightarrow> world \<Rightarrow> error + reply \<times> world" where
  "empty_dataset srv dsid pbi_table pbi_group_id w =
     delete srv (TABLE_ROWS_API (get_datasets_base_url pbi_group_id) dsid pbi_table) False w"

text \<open>
  \<^verbatim>\<open>fieldSetterMap.get(column["type"], "String")\<close>, and the loop of
  \<^verbatim>\<open>create_dataset_from_schema\<close>; \<open>columns\<close> is the list built so far.
\<close>

definition pbi_data_type :: "string \<Rightarrow> string" where
  "pbi_data_type t = (case map_of fieldSetterMap t of Some v \<Rightarrow> v | None \<Rightarrow> ''String'')"

fun build_columns :: "column list \<Rightarrow> json list \<Rightarrow> json list" where
  "build_columns [] columns = columns"
| "build_columns (c # cs) columns =
     build_columns cs
       (columns @ [JObj [(''name'', JStr (col_name c)),
                         (''dataType'', JStr (pbi_data_type (col_type c)))]])"

definition create_dataset_payload :: "string \<Rightarrow> string \<Rightarrow> schema \<Rightarrow> json" where
  "create_dataset_payload pbi_dataset pbi_table sch =
     JObj [(''name'', JStr pbi_dataset),
           (''defaultMode'', JStr ''PushStreaming''),
           (''tables'', JArr [JObj [(''name'', JStr pbi_table),
                                    (''columns'', JArr (build_columns sch []))]])]"

definition create_dataset_from_schema ::
  "server \<Rightarrow> string \<Rightarrow> string \<Rightarrow> json \<Rightarrow> schema \<Rightarrow> world \<Rightarrow> error + reply \<times> world" where
  "create_dataset_from_schema srv pbi_dataset pbi_table pbi_group_id sch w =
     post srv (get_datasets_base_url pbi_group_id)
       (create_dataset_payload pbi_dataset pbi_table sch) True w"

subsection \<open>Workspaces\<close>

text \<open>The loop of \<^verbatim>\<open>filter_group_by_name\<close>.\<close>

fun first_group_named :: "(string \<Rightarrow> string) \<Rightarrow> string \<Rightarrow> json list \<Rightarrow> error + json" where
  "first_group_named lower lowercase_workspace_name [] = Inr (JObj [])"
| "first_group_named lower lowercase_workspace_name (grp # groups) =
     (case py_get grp ''name'' (JStr []) of
        Inl e \<Rightarrow> Inl e
      | Inr n \<Rightarrow>
          (case py_lower lower n of
             Inl e \<Rightarrow> Inl e
           | Inr l \<Rightarrow>
               if l = lowercase_workspace_name then Inr grp
               else first_group_named lower lowercase_workspace_name groups))"

definition filter_group_by_name ::
  "(string \<Rightarrow> string) \<Rightarrow> json \<Rightarrow> string \<Rightarrow> error + json" where
  "filter_group_by_name lower groups pbi_workspace =
     (case py_iter groups of
        Inl e \<Rightarrow> Inl e
      | Inr gs \<Rightarrow> first_group_named lower (lower pbi_workspace) gs)"

definition groups_error_messages :: "int \<rightharpoonup> string" where
  "groups_error_messages =
     [401 \<mapsto> ''No access to groups/workspaces lists. Please check your access rights.'']"

text \<open>
  \<^verbatim>\<open>get_group_id_by_name\<close> returns the world beside the outcome too: after the one call of
  \<^verbatim>\<open>get\<close> nothing more is sent, whatever is raised or returned.
\<close>

definition get_group_id_by_name ::
  "(string \<Rightarrow> string) \<Rightarrow> server \<Rightarrow> string option \<Rightarrow> world \<Rightarrow> (error + json) \<times> world" where
  "get_group_id_by_name lower srv pbi_workspace w =
     (case pbi_workspace of
        None \<Rightarrow> (Inr JNull, w)
      | Some ws \<Rightarrow>
          if ws = ''My workspace'' then (Inr JNull, w)
          else
            (case get srv GROUPS_API groups_error_messages w of
               (r, w1) \<Rightarrow>
                 ((case r of
                     Inl e \<Rightarrow> Inl e
                   | Inr json_response \<Rightarrow>
                       (case py_get json_response ''value'' (JArr []) of
                          Inl e \<Rightarrow> Inl e
                        | Inr groups \<Rightarrow>
                            (case filter_group_by_name lower groups ws of
                               Inl e \<Rightarrow> Inl e
                             | Inr grp \<Rightarrow>
                                 (case py_get grp ''id'' JNull of
                                    Inl e \<Rightarrow> Inl e
                                  | Inr group_id \<Rightarrow>
                                      if group_id = JNull
                                      then Inl (Exception (WorkspaceMissing ws))
                                      else Inr group_id)))),
                  w1)))"

subsection \<open>Row encoding\<close>

text \<open>A row object: the dict from column name to cell value.\<close>

type_synonym row = "(string \<times> pyval) list"

text \<open>\<^verbatim>\<open>json.dumps\<close> on a list of row objects: an object with \<^verbatim>\<open>isoformat\<close> is not serializable.\<close>

fun dumps_value :: "pyval \<Rightarrow> error + json" where
  "dumps_value PNone = Inr JNull"
| "dumps_value (PBool b) = Inr (JBool b)"
| "dumps_value (PInt i) = Inr (JInt i)"
| "dumps_value (PFloat f) = Inr (JFloat f)"
| "dumps_value (PStr s) = Inr (JStr s)"
| "dumps_value (PTemporal s) = Inl TypeError"

fun dumps_row :: "row \<Rightarrow> error + (string \<times> json) list" where
  "dumps_row [] = Inr []"
| "dumps_row ((k, v) # kvs) =
     (case dumps_value v of
        Inl e \<Rightarrow> Inl e
      | Inr j \<Rightarrow> (case dumps_row kvs of Inl e \<Rightarrow> Inl e | Inr js \<Rightarrow> Inr ((k, j) # js)))"

fun dumps_rows :: "row list \<Rightarrow> error + json list" where
  "dumps_rows [] = Inr []"
| "dumps_rows (r # rs) =
     (case dumps_row r of
        Inl e \<Rightarrow> Inl e
      | Inr j \<Rightarrow> (case dumps_rows rs of Inl e \<Rightarrow> Inl e | Inr js \<Rightarrow> Inr (JObj j # js)))"

definition json_dumps :: "row list \<Rightarrow> error + json" where
  "json_dumps rows = (case dumps_rows rows of Inl e \<Rightarrow> Inl e | Inr js \<Rightarrow> Inr (JArr js))"

text \<open>
  \<^verbatim>\<open>math.isnan\<close>: a bool or an int is converted to a float first, which overflows from
  \<open>float_overflow\<close> on; anything that is not a number is a \<^verbatim>\<open>TypeError\<close>.
\<close>

definition float_overflow :: int where
  "float_overflow = 2 ^ 1024 - 2 ^ 970"

fun math_isnan :: "pyval \<Rightarrow> error + bool" where
  "math_isnan (PFloat f) = Inr (f = NaN)"
| "math_isnan (PBool b) = Inr False"
| "math_isnan (PInt i) = (if \<bar>i\<bar> < float_overflow then Inr False else Inl OverflowError)"
| "math_isnan _ = Inl TypeError"

fun date_convertion :: "pyval \<Rightarrow> error + pyval" where
  "date_convertion (PTemporal ret) = Inr (if ret = ''NaT'' then PNone else PStr ret)"
| "date_convertion _ = Inl AttributeError"

definition boolean_check :: "pyval \<Rightarrow> error + pyval" where
  "boolean_check pandas_boolean =
     (case math_isnan pandas_boolean of
        Inl e \<Rightarrow> Inl e
      | Inr True \<Rightarrow> Inr PNone
      | Inr False \<Rightarrow> Inr pandas_boolean)"

datatype encoder = Dumps | ParseFormattableValues

record powerbi =
  columns_with_date :: "string list option"
  columns_with_boolean :: "string list option"
  json_filter :: "encoder option"

text \<open>The loop of \<^verbatim>\<open>register_formattable_columns\<close> collects the names in schema order.\<close>

fun collect_formattable ::
  "column list \<Rightarrow> string list \<Rightarrow> string list \<Rightarrow> string list \<times> string list" where
  "collect_formattable [] ds bs = (ds, bs)"
| "collect_formattable (c # cs) ds bs =
     collect_formattable cs
       (if col_type c = ''date'' then ds @ [col_name c] else ds)
       (if col_type c = ''boolean'' then bs @ [col_name c] else bs)"

definition register_formattable_columns :: "powerbi \<Rightarrow> schema \<Rightarrow> powerbi" where
  "register_formattable_columns self sch =
     (case collect_formattable sch [] [] of
        (ds, bs) \<Rightarrow>
          self\<lparr>columns_with_date := Some ds,
               columns_with_boolean := Some bs,
               json_filter := Some (if length ds > 0 \<or> length bs > 0
                                    then ParseFormattableValues else Dumps)\<rparr>)"

text \<open>
  The inner loops of \<^verbatim>\<open>parse_formattable_values\<close>. Inside the \<^verbatim>\<open>try\<close> block only
  \<^verbatim>\<open>date_convertion\<close> can raise \<^verbatim>\<open>AttributeError\<close>, so the handler's exception is raised where
  it is called, with the value just read as \<^verbatim>\<open>date_to_convert\<close>.
\<close>

fun convert_dates :: "string list \<Rightarrow> row \<Rightarrow> error + row" where
  "convert_dates [] r = Inr r"
| "convert_dates (column_with_date # cs) r =
     (case map_of r column_with_date of
        None \<Rightarrow> Inl (KeyError column_with_date)
      | Some date_to_convert \<Rightarrow>
          (case date_convertion date_to_convert of
             Inl AttributeError \<Rightarrow> Inl (Exception (DateNotFormatted date_to_convert))
           | Inl e \<Rightarrow> Inl e
           | Inr v \<Rightarrow> convert_dates cs (AList.update column_with_date v r)))"

fun check_booleans :: "string list \<Rightarrow> row \<Rightarrow> error + row" where
  "check_booleans [] r = Inr r"
| "check_booleans (column_with_boolean # cs) r =
     (case map_of r column_with_boolean of
        None \<Rightarrow> Inl (KeyError column_with_boolean)
      | Some boolean_to_check \<Rightarrow>
          (case boolean_check boolean_to_check of
             Inl e \<Rightarrow> Inl e
           | Inr v \<Rightarrow> check_booleans cs (AList.update column_with_boolean v r)))"

definition format_row :: "powerbi \<Rightarrow> row \<Rightarrow> error + row" where
  "format_row self r =
     (case columns_with_date self of
        None \<Rightarrow> Inl TypeError
      | Some ds \<Rightarrow>
          (case convert_dates ds r of
             Inl e \<Rightarrow> Inl e
           | Inr r1 \<Rightarrow>
               (case columns_with_boolean self of
                  None \<Rightarrow> Inl TypeError
                | Some bs \<Rightarrow> check_booleans bs r1)))"

text \<open>
  The rows given to \<^verbatim>\<open>parse_formattable_values\<close> are the caller's dicts, and the loop assigns
  the converted cells into them: \<^verbatim>\<open>row[column] = ...\<close>. So the rows are references, a
  \<open>heap\<close> gives the dict at each reference, and one dict may stand in the list more than
  once. The loop reads the dict at a reference, converts its cells and stores it back, and
  \<^verbatim>\<open>ret\<close> collects the references; \<^verbatim>\<open>json.dumps(ret)\<close> sees the dicts as they are at the end.
  A call that raises gives the exception alone: the dicts it has changed by then are not
  part of its outcome here.
\<close>

type_synonym addr = nat

type_synonym heap = "addr \<Rightarrow> row"

fun format_rows ::
  "powerbi \<Rightarrow> addr list \<Rightarrow> addr list \<Rightarrow> heap \<Rightarrow> error + addr list \<times> heap" where
  "format_rows self [] ret h = Inr (ret, h)"
| "format_rows self (r # rs) ret h =
     (case format_row self (h r) of
        Inl e \<Rightarrow> Inl e
      | Inr r' \<Rightarrow> format_rows self rs (ret @ [r]) (h(r := r')))"

definition parse_formattable_values ::
  "powerbi \<Rightarrow> addr list \<Rightarrow> heap \<Rightarrow> error + json \<times> heap" where
  "parse_formattable_values self rows h =
     (case format_rows self rows [] h of
        Inl e \<Rightarrow> Inl e
      | Inr (ret, h') \<Rightarrow>
          (case json_dumps (map h' ret) of
             Inl e \<Rightarrow> Inl e
           | Inr data \<Rightarrow> Inr (data, h')))"

definition post_table_row ::
  "powerbi \<Rightarrow> server \<Rightarrow> addr list \<Rightarrow> heap \<Rightarrow> json \<Rightarrow> string \<Rightarrow> json \<Rightarrow> world
     \<Rightarrow> error + reply \<times> world \<times> heap" where
  "post_table_row self srv rows h dsid pbi_table pbi_group_id w =
     (case json_filter self of
        None \<Rightarrow> Inl AttributeError
      | Some enc \<Rightarrow>
          (case (case enc of
                   Dumps \<Rightarrow>
                     (case json_dumps (map h rows) of
                        Inl e \<Rightarrow> Inl e
                      | Inr data \<Rightarrow> Inr (data, h))
                 | ParseFormattableValues \<Rightarrow> parse_formattable_values self rows h) of
             Inl e \<Rightarrow> Inl e
           | Inr (new_data, h') \<Rightarrow>
               (case post srv (TABLE_ROWS_API (get_datasets_base_url pbi_group_id) dsid pbi_table)
                       new_data True w of
                  Inl e \<Rightarrow> Inl e
                | Inr (rsp, w') \<Rightarrow> Inr (rsp, w', h'))))"

section \<open>The export adapter (exporter.py)\<close>

text \<open>
  The fields of \<^verbatim>\<open>PowerBIExporter\<close> that the lifecycle hooks read and write. The row
  buffer holds the dicts themselves: \<^verbatim>\<open>write_row\<close> makes a new dict for each row and nothing
  assigns into a buffered one. \<open>schema\<close> and
  \<open>dsid\<close> are attributes that only \<^verbatim>\<open>open\<close> binds: \<open>None\<close> is the attribute not being there,
  and reading it raises \<^verbatim>\<open>AttributeError\<close>. \<open>world\<close> is not a field of the object: it is
  the outside world as the calls made so far have left it.
\<close>

record exporter =
  row_index :: int
  row_buffer :: "row list"
  pbi_dataset :: string
  pbi_table :: string
  pbi_overwrite :: bool
  pbi_buffer_size :: int
  schema :: "schema option"
  dsid :: "json option"
  world :: world

text \<open>The loop \<^verbatim>\<open>for dataset in datasets: self.pbi.delete_dataset(dataset)\<close>.\<close>

fun delete_each :: "server \<Rightarrow> json list \<Rightarrow> world \<Rightarrow> error + world" where
  "delete_each srv [] w = Inr w"
| "delete_each srv (dataset # datasets) w =
     (case delete_dataset srv dataset JNull w of
        Inl e \<Rightarrow> Inl e
      | Inr (rsp, w1) \<Rightarrow> delete_each srv datasets w1)"

text \<open>\<^verbatim>\<open>response.get("id")\<close> and \<^verbatim>\<open>response["id"]\<close> on what \<^verbatim>\<open>post\<close> returned.\<close>

fun reply_get :: "reply \<Rightarrow> string \<Rightarrow> error + json" where
  "reply_get (Parsed j) k = py_get j k JNull"
| "reply_get (Raw rsp) k = Inl AttributeError"

fun reply_index :: "reply \<Rightarrow> string \<Rightarrow> error + json" where
  "reply_index (Parsed j) k = py_index j k"
| "reply_index (Raw rsp) k = Inl TypeError"

definition open_exporter :: "server \<Rightarrow> exporter \<Rightarrow> schema \<Rightarrow> error + exporter" where
  "open_exporter srv self0 sch =
     (let self = self0\<lparr>schema := Some sch\<rparr> in
      if pbi_overwrite self
      then
        (case get_dataset_by_name srv (pbi_dataset self) JNull
                (emit LookingForDatasets (world self)) of
           Inl e \<Rightarrow> Inl e
         | Inr (datasets, w1) \<Rightarrow>
             (case delete_each srv datasets w1 of
                Inl e \<Rightarrow> Inl e
              | Inr w2 \<Rightarrow>
                  (case create_dataset_from_schema srv (pbi_dataset self) (pbi_table self)
                          JNull sch w2 of
                     Inl e \<Rightarrow> Inl e
                   | Inr (rsp, w3) \<Rightarrow>
                       (case reply_get rsp ''id'' of
                          Inl e \<Rightarrow> Inl e
                        | Inr i \<Rightarrow>
                            if i = JNull then Inl (SystemExit ''Dataset creation error'')
                            else
                              (case reply_index rsp ''id'' of
                                 Inl e \<Rightarrow> Inl e
                               | Inr d \<Rightarrow>
                                   Inr (self\<lparr>dsid := Some d,
                                             world := emit (CreatedDataset d) w3\<rparr>))))))
      else
        (case get_dataset_by_name srv (pbi_dataset self) JNull (world self) of
           Inl e \<Rightarrow> Inl e
         | Inr (datasets, w1) \<Rightarrow>
             (case datasets of
                d # _ \<Rightarrow>
                  Inr (self\<lparr>dsid := Some d,
                            world := emit (WillUseDataset d) (emit (ExistingDatasets datasets) w1)\<rparr>)
              | [] \<Rightarrow> Inl (SystemExit ''Dataset creation error''))))"

text \<open>The loop \<^verbatim>\<open>for (col, val) in zip(self.schema["columns"], row): row_obj[col["name"]] = val\<close>.\<close>

fun fill_row :: "(column \<times> pyval) list \<Rightarrow> row \<Rightarrow> row" where
  "fill_row [] row_obj = row_obj"
| "fill_row ((col, val) # cvs) row_obj = fill_row cvs (AList.update (col_name col) val row_obj)"

definition new_row_obj :: "schema \<Rightarrow> pyval list \<Rightarrow> row" where
  "new_row_obj cols vals = fill_row (zip cols vals) []"

text \<open>
  The block that \<^verbatim>\<open>write_row\<close> and \<^verbatim>\<open>close\<close> share word for word: post the buffered rows to
  the table-rows endpoint, print the count and the response code, and when the code does not
  start with \<^verbatim>\<open>2\<close> print two more lines, the second of them with \<^verbatim>\<open>response.json()\<close>.
\<close>

definition post_buffer :: "server \<Rightarrow> exporter \<Rightarrow> error + exporter" where
  "post_buffer srv self =
     (case dsid self of
        None \<Rightarrow> Inl AttributeError
      | Some d \<Rightarrow>
          (case json_dumps (row_buffer self) of
             Inl e \<Rightarrow> Inl e
           | Inr data \<Rightarrow>
               (case send srv (POST (TABLE_ROWS_API DATASETS_API d (pbi_table self)) data)
                       (world self) of
                  (rsp, w1) \<Rightarrow>
                    (let w2 = emit (Inserted (length (row_buffer self)) (status_code rsp)) w1 in
                     if \<not> startswith (str_int (status_code rsp)) ''2''
                     then
                       (case resp_json rsp of
                          None \<Rightarrow> Inl ValueError
                        | Some j \<Rightarrow>
                            Inr (self\<lparr>world :=
                                   emit (ApiResponse j)
                                     (emit (MayIndicateIssue (status_code rsp)) w2)\<rparr>))
                     else Inr (self\<lparr>world := w2\<rparr>)))))"

definition write_row :: "server \<Rightarrow> exporter \<Rightarrow> pyval list \<Rightarrow> error + exporter" where
  "write_row srv self0 vals =
     (case schema self0 of
        None \<Rightarrow> Inl AttributeError
      | Some cols \<Rightarrow>
          (let self = self0\<lparr>row_buffer := row_buffer self0 @ [new_row_obj cols vals]\<rparr> in
           if int (length (row_buffer self)) > pbi_buffer_size self
           then
             (case post_buffer srv self of
                Inl e \<Rightarrow> Inl e
              | Inr self1 \<Rightarrow> Inr (self1\<lparr>row_buffer := [], row_index := row_index self1 + 1\<rparr>))
           else Inr (self\<lparr>row_index := row_index self + 1\<rparr>)))"

definition close_exporter :: "server \<Rightarrow> exporter \<Rightarrow> error + exporter" where
  "close_exporter srv self =
     (case (if length (row_buffer self) > 0 then post_buffer srv self else Inr self) of
        Inl e \<Rightarrow> Inl e
      | Inr self1 \<Rightarrow>
          (case dsid self1 of
             None \<Rightarrow> Inl AttributeError
           | Some d \<Rightarrow>
               Inr (self1\<lparr>world := emit (Summary d) (emit LoadingComplete (world self1))\<rparr>)))"

text \<open>The host calls \<^verbatim>\<open>write_row\<close> once for each row; an exception ends the job.\<close>

fun write_rows :: "server \<Rightarrow> exporter \<Rightarrow> pyval list list \<Rightarrow> error + exporter" where
  "write_rows srv self [] = Inr self"
| "write_rows srv self (vals # rest) =
     (case write_row srv self vals of
        Inl e \<Rightarrow> Inl e
      | Inr self1 \<Rightarrow> write_rows srv self1 rest)"

section \<open>Notions used in the statements\<close>

text \<open>The entry of a JSON object under a key, if the value is an object and has one.\<close>

fun field :: "string \<Rightarrow> json \<Rightarrow> json option" where
  "field k (JObj kvs) = map_of kvs k"
| "field k _ = None"

subsection \<open>Concrete inputs\<close>

text \<open>A service that gives the same response to every request.\<close>

definition always :: "response \<Rightarrow> server" where
  "always rsp h = rsp"

definition world0 :: world where
  "world0 = \<lparr>requests = [], printed = []\<rparr>"

definition sales_schema :: schema where
  "sales_schema =
     [\<lparr>col_name = ''amt'', col_type = ''double''\<rparr>,
      \<lparr>col_name = ''day'', col_type = ''date''\<rparr>,
      \<lparr>col_name = ''spot'', col_type = ''geopoint''\<rparr>]"

definition created_response :: response where
  "created_response =
     \<lparr>status_code = 201, content = ''{\"id\": \"ds-new\"}'',
      resp_json = Some (JObj [(''id'', JStr ''ds-new'')]),
      content_type = Some ''application/json; charset=utf-8''\<rparr>"

definition listed_datasets :: "json list" where
  "listed_datasets =
     [JObj [(''id'', JStr ''a1''), (''name'', JStr ''Sales'')],
      JObj [(''id'', JStr ''b2''), (''name'', JStr ''sales'')],
      JObj [(''id'', JStr ''c3''), (''name'', JStr ''Sales'')],
      JObj [(''id'', JStr ''d4''), (''name'', JStr ''Stock'')]]"

definition listing_response :: response where
  "listing_response =
     \<lparr>status_code = 200, content = ''{\"value\": [...]}'',
      resp_json = Some (JObj [(''value'', JArr listed_datasets)]),
      content_type = Some ''application/json''\<rparr>"

text \<open>The value at \<^verbatim>\<open>error.message\<close> of a response's JSON body, if the body has that shape.\<close>

definition nested_message :: "response \<Rightarrow> json option" where
  "nested_message rsp =
     (case resp_json rsp of
        None \<Rightarrow> None
      | Some j \<Rightarrow> (case field ''error'' j of None \<Rightarrow> None | Some e \<Rightarrow> field ''message'' e))"

definition no_messages :: "int \<rightharpoonup> string" where
  "no_messages = Map.empty"

definition gone_response :: response where
  "gone_response =
     \<lparr>status_code = 404, content = ''{\"error\": {\"message\": \"Dataset is gone\"}}'',
      resp_json = Some (JObj [(''error'', JObj [(''message'', JStr ''Dataset is gone'')])]),
      content_type = Some ''application/json''\<rparr>"

text \<open>
  The lower-cased name of a workspace entry that is an object whose name, if it has one, is a
  string; an entry without a name counts as named by the empty string.
\<close>

fun group_name_lower :: "(string \<Rightarrow> string) \<Rightarrow> json \<Rightarrow> string option" where
  "group_name_lower lower (JObj fs) =
     (case map_of fs ''name'' of
        None \<Rightarrow> Some (lower [])
      | Some (JStr n) \<Rightarrow> Some (lower n)
      | Some _ \<Rightarrow> None)"
| "group_name_lower lower _ = None"

text \<open>
  On a text of ASCII characters, as the names below are, \<^verbatim>\<open>.lower()\<close> changes the letters
  A to Z and nothing else.
\<close>

definition lower_char :: "char \<Rightarrow> char" where
  "lower_char c =
     (let n = (of_char c :: nat) in if 65 \<le> n \<and> n \<le> 90 then char_of (n + 32) else c)"

definition ascii_lower :: "string \<Rightarrow> string" where
  "ascii_lower s = map lower_char s"

definition groups_response :: response where
  "groups_response =
     \<lparr>status_code = 200, content = ''{\"value\": [...]}'',
      resp_json = Some (JObj [(''value'', JArr
        [JObj [(''id'', JStr ''g1''), (''name'', JStr ''Finance'')],
         JObj [(''id'', JStr ''g2'')]])]),
      content_type = Some ''application/json''\<rparr>"

definition named_groups_response :: response where
  "named_groups_response =
     \<lparr>status_code = 200, content = ''{\"value\": [...]}'',
      resp_json = Some (JObj [(''value'', JArr
        [JObj [(''id'', JStr ''g1''), (''name'', JStr ''Finance'')],
         JObj [(''id'', JStr ''g3''), (''name'', JStr ''Operations'')]])]),
      content_type = Some ''application/json''\<rparr>"

text \<open>An adapter as \<^verbatim>\<open>__init__\<close> leaves it, and one that \<^verbatim>\<open>open\<close> has bound to a dataset.\<close>

definition created_exporter :: exporter where
  "created_exporter =
     \<lparr>row_index = 0, row_buffer = [], pbi_dataset = ''Sales'', pbi_table = ''dss-data'',
      pbi_overwrite = True, pbi_buffer_size = 2, schema = None, dsid = None, world = world0\<rparr>"

definition opened_exporter :: exporter where
  "opened_exporter = created_exporter\<lparr>schema := Some sales_schema, dsid := Some (JStr ''ds-new'')\<rparr>"

text \<open>Whether a cell value has the \<^verbatim>\<open>isoformat\<close> method.\<close>

fun is_temporal :: "pyval \<Rightarrow> bool" where
  "is_temporal (PTemporal s) = True"
| "is_temporal _ = False"

definition failed_response :: response where
  "failed_response =
     \<lparr>status_code = 500, content = ''{\"error\": {\"message\": \"Internal error\"}}'',
      resp_json = Some (JObj [(''error'', JObj [(''message'', JStr ''Internal error'')])]),
      content_type = Some ''application/json''\<rparr>"

text \<open>A response of a gateway in front of the service: the body is not JSON.\<close>

definition bad_gateway_response :: response where
  "bad_gateway_response =
     \<lparr>status_code = 502, content = ''<html>Bad Gateway</html>'',
      resp_json = None,
      content_type = Some ''text/html''\<rparr>"

text \<open>An opened adapter of capacity 0, and one that holds a row not yet sent.\<close>

definition tiny_exporter :: exporter where
  "tiny_exporter = opened_exporter\<lparr>pbi_buffer_size := 0\<rparr>"

definition pending_exporter :: exporter where
  "pending_exporter = opened_exporter\<lparr>row_buffer := [[(''amt'', PInt 7)]]\<rparr>"

text \<open>A service that accepts every request with an empty body.\<close>

definition ok_response :: response where
  "ok_response = \<lparr>status_code = 200, content = [], resp_json = None, content_type = None\<rparr>"

definition four_rows :: "pyval list list" where
  "four_rows = [[PInt 1], [PInt 2], [PInt 3], [PInt 4]]"

definition after_four_rows :: exporter where
  "after_four_rows =
     opened_exporter
       \<lparr>row_index := 4,
        row_buffer := [[(''amt'', PInt 4)]],
        world :=
          \<lparr>requests = [POST (TABLE_ROWS_API DATASETS_API (JStr ''ds-new'') ''dss-data'')
                            (JArr [JObj [(''amt'', JInt 1)], JObj [(''amt'', JInt 2)],
                                   JObj [(''amt'', JInt 3)]])],
           printed = [Inserted 3 200]\<rparr>\<rparr>"

definition two_rows :: "pyval list list" where
  "two_rows = [[PInt 1], [PInt 2]]"

definition three_rows :: "pyval list list" where
  "three_rows = [[PInt 1], [PInt 2], [PInt 3]]"

definition after_two_rows :: exporter where
  "after_two_rows =
     opened_exporter\<lparr>row_index := 2, row_buffer := [[(''amt'', PInt 1)], [(''amt'', PInt 2)]]\<rparr>"

definition closed_after_two_rows :: exporter where
  "closed_after_two_rows =
     after_two_rows
       \<lparr>world :=
          \<lparr>requests = [POST (TABLE_ROWS_API DATASETS_API (JStr ''ds-new'') ''dss-data'')
                            (JArr [JObj [(''amt'', JInt 1)], JObj [(''amt'', JInt 2)]])],
           printed = [Inserted 2 200, LoadingComplete, Summary (JStr ''ds-new'')]\<rparr>\<rparr>"

definition after_three_rows :: exporter where
  "after_three_rows =
     opened_exporter
       \<lparr>row_index := 3,
        world :=
          \<lparr>requests = [POST (TABLE_ROWS_API DATASETS_API (JStr ''ds-new'') ''dss-data'')
                            (JArr [JObj [(''amt'', JInt 1)], JObj [(''amt'', JInt 2)],
                                   JObj [(''amt'', JInt 3)]])],
           printed = [Inserted 3 200]\<rparr>\<rparr>"

text \<open>A service that lists the datasets above, deletes what it is asked to, and creates.\<close>

definition deleted_response :: response where
  "deleted_response = \<lparr>status_code = 200, content = [], resp_json = None, content_type = None\<rparr>"

fun demo_server :: server where
  "demo_server h =
     (case last h of
        GET u \<Rightarrow> listing_response
      | DELETE u \<Rightarrow> deleted_response
      | POST u body \<Rightarrow> created_response)"

text \<open>Adapters configured to reuse a dataset: one that is listed, one that is not.\<close>

definition reuse_exporter :: exporter where
  "reuse_exporter = created_exporter\<lparr>pbi_overwrite := False\<rparr>"

definition orders_exporter :: exporter where
  "orders_exporter = reuse_exporter\<lparr>pbi_dataset := ''Orders''\<rparr>"

text \<open>
  A client with the formattable columns of a schema registered, and a heap of three row
  dicts for it: two that can be formatted, at references 0 and 1, and one whose date is a
  string, at reference 2.
\<close>

definition typed_schema :: schema where
  "typed_schema =
     [\<lparr>col_name = ''day'', col_type = ''date''\<rparr>,
      \<lparr>col_name = ''ok'', col_type = ''boolean''\<rparr>,
      \<lparr>col_name = ''amt'', col_type = ''double''\<rparr>]"

definition new_pbi :: powerbi where
  "new_pbi = \<lparr>columns_with_date = None, columns_with_boolean = None, json_filter = None\<rparr>"

definition formatting_pbi :: powerbi where
  "formatting_pbi = register_formattable_columns new_pbi typed_schema"

definition rows_heap :: heap where
  "rows_heap a =
     (if a = 0
      then [(''day'', PTemporal ''2020-01-02T03:04:05''), (''ok'', PBool True), (''amt'', PInt 1)]
      else if a = 1
      then [(''day'', PTemporal ''NaT''), (''ok'', PFloat NaN), (''amt'', PInt 2)]
      else if a = 2
      then [(''day'', PStr ''yesterday''), (''ok'', PBool False), (''amt'', PInt 3)]
      else [])"




section \<open>The dataset-creation payload\<close>

lemma build_columns_append:
  "build_columns cs acc =
     acc @ map (\<lambda>c. JObj [(''name'', JStr (col_name c)),
                          (''dataType'', JStr (pbi_data_type (col_type c)))]) cs"
  by (induction cs arbitrary: acc) simp_all

lemma pbi_data_type_table:
  "pbi_data_type t =
     (if t = ''boolean'' then ''Boolean''
      else if t \<in> {''tinyint'', ''smallint'', ''int'', ''bigint''} then ''Int64''
      else if t \<in> {''float'', ''double''} then ''Double''
      else if t = ''date'' then ''dateTime''
      else ''String'')"
  by (simp add: pbi_data_type_def fieldSetterMap_def)

lemma post_requests:
  "post srv u d f w = Inr (r, w') \<Longrightarrow> requests w' = requests w @ [POST u d]"
  by (auto simp: post_def send_def Let_def assert_response_ok_def handle_exception_message_def
        emit_def reply_of_def split: sum.splits if_splits option.splits bool.splits)

lemma created_run:
  "create_dataset_from_schema (always created_response) ''Sales'' ''dss-data'' JNull sales_schema world0
     = Inr (Parsed (JObj [(''id'', JStr ''ds-new'')]),
            \<lparr>requests = [POST DATASETS_API (create_dataset_payload ''Sales'' ''dss-data'' sales_schema)],
             printed = []\<rparr>)"
  by (simp add: create_dataset_from_schema_def post_def send_def always_def world0_def created_response_def
        assert_response_ok_def reply_of_def is_json_response_def get_datasets_base_url_def)

text \<open>
  Claim C4. For every schema, the payload that \<^verbatim>\<open>create_dataset_from_schema\<close> builds and
  posts has one column object for each schema column, in schema order, carrying the
  column's name and the \<^verbatim>\<open>fieldSetterMap\<close> entry of its type; a type that is not a key of
  the table is mapped to \<^verbatim>\<open>String\<close>. Whenever the call returns, that payload is the body of
  the one request it added.
\<close>

theorem create_dataset_payload_columns:
  "(\<exists>cols. create_dataset_payload ds tbl sch =
             JObj [(''name'', JStr ds),
                   (''defaultMode'', JStr ''PushStreaming''),
                   (''tables'', JArr [JObj [(''name'', JStr tbl), (''columns'', JArr cols)]])]
         \<and> length cols = length sch
         \<and> cols = map (\<lambda>c. JObj [(''name'', JStr (col_name c)),
                                    (''dataType'', JStr (pbi_data_type (col_type c)))]) sch)
   \<and> (\<forall>t. pbi_data_type t =
          (if t = ''boolean'' then ''Boolean''
           else if t \<in> {''tinyint'', ''smallint'', ''int'', ''bigint''} then ''Int64''
           else if t \<in> {''float'', ''double''} then ''Double''
           else if t = ''date'' then ''dateTime''
           else ''String''))
   \<and> (\<forall>r w'. create_dataset_from_schema srv ds tbl gid sch w = Inr (r, w') \<longrightarrow>
          requests w' =
            requests w @ [POST (get_datasets_base_url gid) (create_dataset_payload ds tbl sch)])"
proof (intro conjI allI impI)
  show "\<exists>cols. create_dataset_payload ds tbl sch =
             JObj [(''name'', JStr ds),
                   (''defaultMode'', JStr ''PushStreaming''),
                   (''tables'', JArr [JObj [(''name'', JStr tbl), (''columns'', JArr cols)]])]
         \<and> length cols = length sch
         \<and> cols = map (\<lambda>c. JObj [(''name'', JStr (col_name c)),
                                    (''dataType'', JStr (pbi_data_type (col_type c)))]) sch"
    by (simp add: create_dataset_payload_def build_columns_append)
next
  fix t
  show "pbi_data_type t =
          (if t = ''boolean'' then ''Boolean''
           else if t \<in> {''tinyint'', ''smallint'', ''int'', ''bigint''} then ''Int64''
           else if t \<in> {''float'', ''double''} then ''Double''
           else if t = ''date'' then ''dateTime''
           else ''String'')"
    by (rule pbi_data_type_table)
next
  fix r w'
  assume "create_dataset_from_schema srv ds tbl gid sch w = Inr (r, w')"
  then show "requests w' =
            requests w @ [POST (get_datasets_base_url gid) (create_dataset_payload ds tbl sch)]"
    unfolding create_dataset_from_schema_def by (rule post_requests)
qed

theorem create_dataset_payload_columns_witness:
  "create_dataset_payload ''Sales'' ''dss-data'' sales_schema =
     JObj [(''name'', JStr ''Sales''),
           (''defaultMode'', JStr ''PushStreaming''),
           (''tables'', JArr [JObj [(''name'', JStr ''dss-data''),
              (''columns'', JArr
                 [JObj [(''name'', JStr ''amt''), (''dataType'', JStr ''Double'')],
                  JObj [(''name'', JStr ''day''), (''dataType'', JStr ''dateTime'')],
                  JObj [(''name'', JStr ''spot''), (''dataType'', JStr ''String'')]])]])]
   \<and> requests (snd (projr (create_dataset_from_schema (always created_response)
                               ''Sales'' ''dss-data'' JNull sales_schema world0))) =
       [POST DATASETS_API (create_dataset_payload ''Sales'' ''dss-data'' sales_schema)]"
proof -
  note t = create_dataset_payload_columns [of "''Sales''" "''dss-data''" sales_schema
          "always created_response" JNull world0]
  from t have tbl: "\<And>t. pbi_data_type t =
          (if t = ''boolean'' then ''Boolean''
           else if t \<in> {''tinyint'', ''smallint'', ''int'', ''bigint''} then ''Int64''
           else if t \<in> {''float'', ''double''} then ''Double''
           else if t = ''date'' then ''dateTime''
           else ''String'')"
    by blast
  from t obtain cols where
    "create_dataset_payload ''Sales'' ''dss-data'' sales_schema =
       JObj [(''name'', JStr ''Sales''),
             (''defaultMode'', JStr ''PushStreaming''),
             (''tables'', JArr [JObj [(''name'', JStr ''dss-data''), (''columns'', JArr cols)]])]"
    "cols = map (\<lambda>c. JObj [(''name'', JStr (col_name c)),
                             (''dataType'', JStr (pbi_data_type (col_type c)))]) sales_schema"
    by blast
  then have a: "create_dataset_payload ''Sales'' ''dss-data'' sales_schema =
     JObj [(''name'', JStr ''Sales''),
           (''defaultMode'', JStr ''PushStreaming''),
           (''tables'', JArr [JObj [(''name'', JStr ''dss-data''),
              (''columns'', JArr
                 [JObj [(''name'', JStr ''amt''), (''dataType'', JStr ''Double'')],
                  JObj [(''name'', JStr ''day''), (''dataType'', JStr ''dateTime'')],
                  JObj [(''name'', JStr ''spot''), (''dataType'', JStr ''String'')]])]])]"
    by (simp add: sales_schema_def tbl)
  from t created_run have b: "requests (snd (projr (create_dataset_from_schema (always created_response)
                               ''Sales'' ''dss-data'' JNull sales_schema world0))) =
       [POST DATASETS_API (create_dataset_payload ''Sales'' ''dss-data'' sales_schema)]"
    by simp
  from a b show ?thesis by blast
qed

section \<open>Looking datasets up by name\<close>

lemma matching_ids_append:
  "\<forall>d \<in> set ds. field ''name'' d \<noteq> None \<and> field ''id'' d \<noteq> None \<Longrightarrow>
   matching_ids name ds ret =
     Inr (ret @ map (\<lambda>d. the (field ''id'' d)) (filter (\<lambda>d. field ''name'' d = Some (JStr name)) ds))"
proof (induction ds arbitrary: ret)
  case Nil
  then show ?case by simp
next
  case (Cons d ds)
  then obtain kvs n i where d: "d = JObj kvs" "map_of kvs ''name'' = Some n" "map_of kvs ''id'' = Some i"
    by (cases d) auto
  from Cons show ?case by (simp add: d)
qed

lemma get_dataset_by_name_listing:
  assumes "resp_json (srv (requests w @ [GET (get_datasets_base_url gid)])) = Some (JObj kvs)"
    and "map_of kvs ''value'' = Some (JArr ds)"
    and "\<forall>d \<in> set ds. field ''name'' d \<noteq> None \<and> field ''id'' d \<noteq> None"
  shows "get_dataset_by_name srv name gid w =
           Inr (map (\<lambda>d. the (field ''id'' d)) (filter (\<lambda>d. field ''name'' d = Some (JStr name)) ds),
                w\<lparr>requests := requests w @ [GET (get_datasets_base_url gid)]\<rparr>)"
  using assms
  by (cases ds)
    (simp_all add: get_dataset_by_name_def get_datasets_def send_def Let_def matching_ids_append
       del: matching_ids.simps)

text \<open>
  Claim C5. For every query name and every listing the service returns (an object whose
  \<^verbatim>\<open>value\<close> is the list of dataset objects, each with a \<^verbatim>\<open>name\<close> and an \<^verbatim>\<open>id\<close>),
  \<^verbatim>\<open>get_dataset_by_name\<close> makes one GET and returns, in listing order, exactly the ids of the
  datasets whose name is the query string itself: the result is non-empty exactly when some
  listed dataset has that name.
\<close>

theorem get_dataset_by_name_exact:
  assumes "resp_json (srv (requests w @ [GET (get_datasets_base_url gid)])) = Some (JObj kvs)"
    and "map_of kvs ''value'' = Some (JArr ds)"
    and "\<forall>d \<in> set ds. field ''name'' d \<noteq> None \<and> field ''id'' d \<noteq> None"
  shows "\<exists>ids w'. get_dataset_by_name srv name gid w = Inr (ids, w')
           \<and> requests w' = requests w @ [GET (get_datasets_base_url gid)]
           \<and> ids = map (\<lambda>d. the (field ''id'' d))
                       (filter (\<lambda>d. field ''name'' d = Some (JStr name)) ds)
           \<and> (ids \<noteq> [] \<longleftrightarrow> (\<exists>d \<in> set ds. field ''name'' d = Some (JStr name)))"
proof -
  let ?ids = "map (\<lambda>d. the (field ''id'' d)) (filter (\<lambda>d. field ''name'' d = Some (JStr name)) ds)"
  have "get_dataset_by_name srv name gid w =
          Inr (?ids, w\<lparr>requests := requests w @ [GET (get_datasets_base_url gid)]\<rparr>)"
    using assms by (rule get_dataset_by_name_listing)
  moreover have "?ids \<noteq> [] \<longleftrightarrow> (\<exists>d \<in> set ds. field ''name'' d = Some (JStr name))"
    by (simp add: filter_empty_conv)
  ultimately show ?thesis by simp
qed

theorem get_dataset_by_name_exact_witness:
  "get_dataset_by_name (always listing_response) ''Sales'' JNull world0 =
     Inr ([JStr ''a1'', JStr ''c3''], \<lparr>requests = [GET DATASETS_API], printed = []\<rparr>)"
proof -
  have "\<exists>ids w'. get_dataset_by_name (always listing_response) ''Sales'' JNull world0 = Inr (ids, w')
           \<and> requests w' = requests world0 @ [GET (get_datasets_base_url JNull)]
           \<and> ids = map (\<lambda>d. the (field ''id'' d))
                       (filter (\<lambda>d. field ''name'' d = Some (JStr ''Sales'')) listed_datasets)
           \<and> (ids \<noteq> [] \<longleftrightarrow> (\<exists>d \<in> set listed_datasets. field ''name'' d = Some (JStr ''Sales'')))"
    by (rule get_dataset_by_name_exact [where kvs = "[(''value'', JArr listed_datasets)]"])
      (simp_all add: listing_response_def listed_datasets_def always_def)
  then obtain ids w' where
    r: "get_dataset_by_name (always listing_response) ''Sales'' JNull world0 = Inr (ids, w')"
    and "requests w' = [GET DATASETS_API]" and "ids = [JStr ''a1'', JStr ''c3'']"
    by (auto simp: world0_def get_datasets_base_url_def listed_datasets_def)
  moreover from r have "printed w' = []"
    by (auto simp: get_dataset_by_name_def get_datasets_def send_def world0_def Let_def always_def
          split: option.splits sum.splits if_splits)
  ultimately show ?thesis by (cases w') simp
qed

section \<open>Error classification\<close>

lemma extract_error_message_nested:
  "extract_error_message_from_response rsp =
     (case nested_message rsp of Some m \<Rightarrow> m | None \<Rightarrow> JStr (content rsp))"
proof (cases "resp_json rsp")
  case None
  then show ?thesis
    by (simp add: extract_error_message_from_response_def nested_message_def)
next
  case (Some j)
  show ?thesis
  proof (cases j)
    case (JObj kvs)
    show ?thesis
    proof (cases "map_of kvs ''error''")
      case None
      with Some JObj show ?thesis
        by (simp add: extract_error_message_from_response_def nested_message_def)
    next
      case (Some e)
      with \<open>resp_json rsp = Some j\<close> JObj show ?thesis
        by (cases e)
          (auto simp: extract_error_message_from_response_def nested_message_def
             split: sum.splits bool.splits option.splits if_splits)
    qed
  qed (use Some in \<open>auto simp: extract_error_message_from_response_def nested_message_def
         split: sum.splits bool.splits option.splits if_splits\<close>)
qed

text \<open>
  Claim C9, as amended. For every response with status 400 or more, the message is the
  caller's message for that status code if there is one; otherwise, when the caller named no
  activity (\<^verbatim>\<open>while_trying\<close>), it is \<^verbatim>\<open>Error <status>:\<close> with the value at \<^verbatim>\<open>error.message\<close>
  of the JSON body, or with the raw body when the body is not JSON or has no such value;
  and when the caller named an activity, it is \<^verbatim>\<open>Error <status> while <activity>:\<close> with
  the raw body, whatever the body holds. The message is raised as an exception when
  \<^verbatim>\<open>fail_on_errors\<close> is set, the default, and is logged with nothing raised otherwise.
\<close>

theorem error_message_precedence:
  assumes "status_code rsp \<ge> 400"
  shows "assert_response_ok rsp while_trying fail_on_errors custom w =
           (let m = (case custom (status_code rsp) of
                       Some t \<Rightarrow> Text t
                     | None \<Rightarrow>
                         (case while_trying of
                            Some a \<Rightarrow> ErrorWhile (status_code rsp) a (content rsp)
                          | None \<Rightarrow>
                              ErrorStatus (status_code rsp)
                                (case nested_message rsp of
                                   Some v \<Rightarrow> v
                                 | None \<Rightarrow> JStr (content rsp))))
            in if fail_on_errors then Inl (Exception m) else Inr (emit (LogError m) w))"
  using assms
  by (simp add: assert_response_ok_def handle_exception_message_def get_error_message_def
        extract_error_message_nested Let_def split: option.splits)

theorem error_message_precedence_witness:
  "assert_response_ok gone_response None True no_messages world0 =
     Inl (Exception (ErrorStatus 404 (JStr ''Dataset is gone'')))
   \<and> assert_response_ok gone_response None False no_messages world0 =
     Inr \<lparr>requests = [], printed = [LogError (ErrorStatus 404 (JStr ''Dataset is gone''))]\<rparr>
   \<and> assert_response_ok gone_response None True groups_error_messages world0 =
     Inl (Exception (ErrorStatus 404 (JStr ''Dataset is gone'')))
   \<and> assert_response_ok (gone_response\<lparr>status_code := 401\<rparr>) None True groups_error_messages world0 =
     Inl (Exception (Text ''No access to groups/workspaces lists. Please check your access rights.''))"
proof -
  have s: "status_code gone_response \<ge> 400" "status_code (gone_response\<lparr>status_code := 401\<rparr>) \<ge> 400"
    by (simp_all add: gone_response_def)
  show ?thesis
    using error_message_precedence [OF s(1), of None True no_messages world0]
      error_message_precedence [OF s(1), of None False no_messages world0]
      error_message_precedence [OF s(1), of None True groups_error_messages world0]
      error_message_precedence [OF s(2), of None True groups_error_messages world0]
    by (simp add: gone_response_def no_messages_def groups_error_messages_def nested_message_def
          world0_def emit_def)
qed

text \<open>
  The claim as first stated fails for a caller that names an activity, as \<^verbatim>\<open>delete_dataset\<close>
  does: the body below has a nested message and no caller message applies, yet the
  exception carries the raw body.
\<close>

theorem error_message_context_counterexample:
  "status_code gone_response \<ge> 400
   \<and> no_messages (status_code gone_response) = None
   \<and> nested_message gone_response = Some (JStr ''Dataset is gone'')
   \<and> assert_response_ok gone_response (Some (Deleting (JStr ''a1''))) True no_messages world0 =
       Inl (Exception (ErrorWhile 404 (Deleting (JStr ''a1''))
                         ''{\"error\": {\"message\": \"Dataset is gone\"}}''))"
  by (simp add: gone_response_def no_messages_def nested_message_def assert_response_ok_def
        handle_exception_message_def get_error_message_def)

section \<open>Resolving a workspace name\<close>

lemma first_group_named_none:
  "\<forall>g \<in> set gs. \<exists>l. group_name_lower lower g = Some l \<and> l \<noteq> lw \<Longrightarrow>
   first_group_named lower lw gs = Inr (JObj [])"
proof (induction gs)
  case Nil
  then show ?case by simp
next
  case (Cons g gs)
  then obtain l where l: "group_name_lower lower g = Some l" "l \<noteq> lw"
    by auto
  then obtain fs where g: "g = JObj fs"
    by (cases g) auto
  from l g Cons show ?case
    by (auto split: option.splits json.splits)
qed

lemma get_world:
  "snd (get srv u custom w) = w\<lparr>requests := requests w @ [GET u]\<rparr>"
  by (simp add: get_def send_def Let_def assert_response_ok_def handle_exception_message_def
        split: option.splits)

lemma get_group_id_by_name_world:
  assumes "ws \<noteq> ''My workspace''"
  shows "snd (get_group_id_by_name lower srv (Some ws) w) =
           w\<lparr>requests := requests w @ [GET GROUPS_API]\<rparr>"
proof -
  obtain r w1 where g: "get srv GROUPS_API groups_error_messages w = (r, w1)"
    by (cases "get srv GROUPS_API groups_error_messages w")
  with get_world [of srv GROUPS_API groups_error_messages w]
  have "w1 = w\<lparr>requests := requests w @ [GET GROUPS_API]\<rparr>"
    by simp
  with assms g show ?thesis
    by (simp add: get_group_id_by_name_def)
qed

text \<open>
  Claim C3, as amended. \<^verbatim>\<open>get_group_id_by_name\<close> returns \<^verbatim>\<open>None\<close> and leaves the world as it
  was, so without a request, when the workspace name is \<^verbatim>\<open>None\<close> or is the sentinel
  \<^verbatim>\<open>My workspace\<close>. For any other name, the empty string included, it makes exactly one
  request, the GET of the workspace list, whatever it then returns or raises. When the
  response to that request has a status below 400 and its body is a JSON object whose
  \<^verbatim>\<open>value\<close>, if it has one, is a list of objects whose \<^verbatim>\<open>name\<close>, where they have one, is a
  string, and no entry's name has the same \<^verbatim>\<open>.lower()\<close> as the given name (an entry
  without a name counting as named by the empty string), the call raises the exception that
  says the workspace does not exist.
\<close>

theorem get_group_id_by_name_default:
  "get_group_id_by_name lower srv None w = (Inr JNull, w)
   \<and> get_group_id_by_name lower srv (Some ''My workspace'') w = (Inr JNull, w)
   \<and> (\<forall>ws. ws \<noteq> ''My workspace'' \<longrightarrow>
         snd (get_group_id_by_name lower srv (Some ws) w) =
           w\<lparr>requests := requests w @ [GET GROUPS_API]\<rparr>)
   \<and> (\<forall>ws kvs gs.
         ws \<noteq> ''My workspace''
         \<and> status_code (srv (requests w @ [GET GROUPS_API])) < 400
         \<and> resp_json (srv (requests w @ [GET GROUPS_API])) = Some (JObj kvs)
         \<and> (case map_of kvs ''value'' of None \<Rightarrow> gs = [] | Some v \<Rightarrow> v = JArr gs)
         \<and> (\<forall>g \<in> set gs. \<exists>l. group_name_lower lower g = Some l \<and> l \<noteq> lower ws)
         \<longrightarrow> get_group_id_by_name lower srv (Some ws) w =
               (Inl (Exception (WorkspaceMissing ws)),
                w\<lparr>requests := requests w @ [GET GROUPS_API]\<rparr>))"
proof (intro conjI allI impI)
  show "get_group_id_by_name lower srv None w = (Inr JNull, w)"
    by (simp add: get_group_id_by_name_def)
  show "get_group_id_by_name lower srv (Some ''My workspace'') w = (Inr JNull, w)"
    by (simp add: get_group_id_by_name_def)
next
  fix ws :: string
  assume "ws \<noteq> ''My workspace''"
  then show "snd (get_group_id_by_name lower srv (Some ws) w) =
           w\<lparr>requests := requests w @ [GET GROUPS_API]\<rparr>"
    by (rule get_group_id_by_name_world)
next
  fix ws kvs gs
  assume a: "ws \<noteq> ''My workspace''
         \<and> status_code (srv (requests w @ [GET GROUPS_API])) < 400
         \<and> resp_json (srv (requests w @ [GET GROUPS_API])) = Some (JObj kvs)
         \<and> (case map_of kvs ''value'' of None \<Rightarrow> gs = [] | Some v \<Rightarrow> v = JArr gs)
         \<and> (\<forall>g \<in> set gs. \<exists>l. group_name_lower lower g = Some l \<and> l \<noteq> lower ws)"
  then have f: "first_group_named lower (lower ws) gs = Inr (JObj [])"
    by (intro first_group_named_none) blast
  from a have g: "get srv GROUPS_API groups_error_messages w =
                    (Inr (JObj kvs), w\<lparr>requests := requests w @ [GET GROUPS_API]\<rparr>)"
    by (simp add: get_def send_def Let_def assert_response_ok_def)
  from a have v: "(case map_of kvs ''value'' of None \<Rightarrow> JArr [] | Some v \<Rightarrow> v) = JArr gs"
    by (auto split: option.splits)
  from a show "get_group_id_by_name lower srv (Some ws) w =
               (Inl (Exception (WorkspaceMissing ws)),
                w\<lparr>requests := requests w @ [GET GROUPS_API]\<rparr>)"
    by (simp add: get_group_id_by_name_def g v filter_group_by_name_def f)
qed

theorem get_group_id_by_name_default_witness:
  "get_group_id_by_name ascii_lower (always groups_response) None world0 = (Inr JNull, world0)
   \<and> get_group_id_by_name ascii_lower (always groups_response) (Some ''My workspace'') world0 =
       (Inr JNull, world0)
   \<and> get_group_id_by_name ascii_lower (always groups_response) (Some ''Marketing'') world0 =
       (Inl (Exception (WorkspaceMissing ''Marketing'')),
        \<lparr>requests = [GET GROUPS_API], printed = []\<rparr>)"
proof -
  note t = get_group_id_by_name_default [of ascii_lower "always groups_response" world0]
  have "get_group_id_by_name ascii_lower (always groups_response) (Some ''Marketing'') world0 =
       (Inl (Exception (WorkspaceMissing ''Marketing'')),
        world0\<lparr>requests := requests world0 @ [GET GROUPS_API]\<rparr>)"
    by (rule t [THEN conjunct2, THEN conjunct2, THEN conjunct2, rule_format,
          where kvs = "[(''value'', JArr
        [JObj [(''id'', JStr ''g1''), (''name'', JStr ''Finance'')],
         JObj [(''id'', JStr ''g2'')]])]"
            and gs = "[JObj [(''id'', JStr ''g1''), (''name'', JStr ''Finance'')],
         JObj [(''id'', JStr ''g2'')]]"])
      (simp add: always_def groups_response_def ascii_lower_def lower_char_def)
  then have "get_group_id_by_name ascii_lower (always groups_response) (Some ''Marketing'') world0 =
       (Inl (Exception (WorkspaceMissing ''Marketing'')),
        \<lparr>requests = [GET GROUPS_API], printed = []\<rparr>)"
    by (simp add: world0_def)
  with t show ?thesis by blast
qed

text \<open>
  The claim as first stated fails for the empty string, which is neither \<^verbatim>\<open>None\<close> nor the
  sentinel: the workspace list is fetched, and the call raises when every listed workspace
  has a name, and returns the id of the first workspace without one otherwise.
\<close>

theorem get_group_id_by_name_empty_counterexample:
  "get_group_id_by_name ascii_lower (always named_groups_response) (Some []) world0 =
     (Inl (Exception (WorkspaceMissing [])), \<lparr>requests = [GET GROUPS_API], printed = []\<rparr>)
   \<and> get_group_id_by_name ascii_lower (always groups_response) (Some []) world0 =
     (Inr (JStr ''g2''), \<lparr>requests = [GET GROUPS_API], printed = []\<rparr>)"
  by (simp add: get_group_id_by_name_def get_def send_def always_def groups_response_def
        named_groups_response_def world0_def assert_response_ok_def filter_group_by_name_def
        ascii_lower_def lower_char_def)

section \<open>Row objects\<close>



lemma values_fill_row:
  "snd ` set (fill_row cvs r) \<subseteq> snd ` set r \<union> snd ` set cvs"
proof (induction cvs arbitrary: r)
  case Nil
  then show ?case by simp
next
  case (Cons cv cvs)
  obtain c v where cv: "cv = (c, v)" by (cases cv)
  have "snd ` set (AList.update (col_name c) v r) \<subseteq> insert v (snd ` set r)"
    by (induction r) auto
  with Cons.IH [of "AList.update (col_name c) v r"] show ?case
    by (auto simp: cv)
qed






lemma write_row_below_capacity:
  assumes "schema self = Some cols" and "int (length (row_buffer self)) < pbi_buffer_size self"
  shows "write_row srv self vals =
           Inr (self\<lparr>row_buffer := row_buffer self @ [new_row_obj cols vals],
                     row_index := row_index self + 1\<rparr>)"
  using assms by (simp add: write_row_def Let_def)




section \<open>Flushing the row buffer\<close>

lemma dumps_rows_length: "dumps_rows rows = Inr js \<Longrightarrow> length js = length rows"
  by (induction rows arbitrary: js) (auto split: sum.splits)

lemma json_dumps_length:
  "json_dumps rows = Inr data \<Longrightarrow> \<exists>js. data = JArr js \<and> length js = length rows"
  by (auto simp: json_dumps_def dumps_rows_length split: sum.splits)

lemma dumps_value_error: "dumps_value v = Inl e \<Longrightarrow> e = TypeError"
  by (cases v) auto

lemma dumps_row_error: "dumps_row r = Inl e \<Longrightarrow> e = TypeError"
  by (induction r rule: dumps_row.induct) (auto split: sum.splits dest: dumps_value_error)

lemma dumps_rows_error: "dumps_rows rs = Inl e \<Longrightarrow> e = TypeError"
  by (induction rs) (auto split: sum.splits dest: dumps_row_error)

lemma json_dumps_error: "json_dumps rs = Inl e \<Longrightarrow> e = TypeError"
  by (auto simp: json_dumps_def split: sum.splits dest: dumps_rows_error)

lemma post_buffer_returned:
  assumes "post_buffer srv self = Inr self'"
  shows "\<exists>d data. dsid self = Some d \<and> json_dumps (row_buffer self) = Inr data
           \<and> requests (world self') = requests (world self)
                              @ [POST (TABLE_ROWS_API DATASETS_API d (pbi_table self)) data]
           \<and> self' = self\<lparr>world := world self'\<rparr>"
  using assms
  by (auto simp: post_buffer_def send_def Let_def emit_def
        split: option.splits sum.splits if_splits)

lemma post_buffer_no_api_error: "post_buffer srv self \<noteq> Inl (Exception m)"
  by (auto simp: post_buffer_def send_def Let_def
        split: option.splits sum.splits if_splits dest: json_dumps_error)

lemma post_buffer_logged:
  assumes "dsid self = Some d"
    and "json_dumps (row_buffer self) = Inr data"
    and "rsp = srv (requests (world self) @ [POST (TABLE_ROWS_API DATASETS_API d (pbi_table self)) data])"
    and "\<not> startswith (str_int (status_code rsp)) ''2''"
    and "resp_json rsp = Some j"
  shows "post_buffer srv self =
           Inr (self\<lparr>world :=
                  \<lparr>requests = requests (world self)
                                @ [POST (TABLE_ROWS_API DATASETS_API d (pbi_table self)) data],
                   printed = printed (world self)
                               @ [Inserted (length (row_buffer self)) (status_code rsp),
                                  MayIndicateIssue (status_code rsp),
                                  ApiResponse j]\<rparr>\<rparr>)"
  using assms
  by (simp add: post_buffer_def send_def Let_def emit_def)

lemma post_buffer_not_json:
  assumes "dsid self = Some d"
    and "json_dumps (row_buffer self) = Inr data"
    and "rsp = srv (requests (world self) @ [POST (TABLE_ROWS_API DATASETS_API d (pbi_table self)) data])"
    and "\<not> startswith (str_int (status_code rsp)) ''2''"
    and "resp_json rsp = None"
  shows "post_buffer srv self = Inl ValueError"
  using assms
  by (simp add: post_buffer_def send_def Let_def emit_def)

text \<open>
  Claim C1, as amended. No flush in \<^verbatim>\<open>write_row\<close> or \<^verbatim>\<open>close\<close> raises the plugin's own
  exception, whatever the table-rows endpoint answers. When the response code does not start
  with \<^verbatim>\<open>2\<close> and the body is JSON, the adapter prints the count with the code, a warning and
  the body, and carries on: \<^verbatim>\<open>write_row\<close> empties the buffer and counts the row,
  \<^verbatim>\<open>close\<close> prints its summary. When the response code does not start with \<^verbatim>\<open>2\<close> and the
  body is not JSON, \<^verbatim>\<open>response.json()\<close> raises \<^verbatim>\<open>ValueError\<close>, which the adapter does not
  catch: the call ends with that exception.
\<close>

theorem flush_failure_is_printed:
  "(\<forall>m. write_row srv self vals \<noteq> Inl (Exception m))
   \<and> (\<forall>m. close_exporter srv self \<noteq> Inl (Exception m))
   \<and> (\<forall>cols d data rsp j.
         schema self = Some cols
         \<and> pbi_buffer_size self < int (length (row_buffer self)) + 1
         \<and> dsid self = Some d
         \<and> json_dumps (row_buffer self @ [new_row_obj cols vals]) = Inr data
         \<and> rsp = srv (requests (world self)
                         @ [POST (TABLE_ROWS_API DATASETS_API d (pbi_table self)) data])
         \<and> \<not> startswith (str_int (status_code rsp)) ''2''
         \<and> resp_json rsp = Some j
         \<longrightarrow> write_row srv self vals =
               Inr (self\<lparr>row_buffer := [],
                         row_index := row_index self + 1,
                         world :=
                           \<lparr>requests = requests (world self)
                              @ [POST (TABLE_ROWS_API DATASETS_API d (pbi_table self)) data],
                            printed = printed (world self)
                              @ [Inserted (length (row_buffer self) + 1) (status_code rsp),
                                 MayIndicateIssue (status_code rsp),
                                 ApiResponse j]\<rparr>\<rparr>))
   \<and> (\<forall>d data rsp j.
         row_buffer self \<noteq> []
         \<and> dsid self = Some d
         \<and> json_dumps (row_buffer self) = Inr data
         \<and> rsp = srv (requests (world self)
                         @ [POST (TABLE_ROWS_API DATASETS_API d (pbi_table self)) data])
         \<and> \<not> startswith (str_int (status_code rsp)) ''2''
         \<and> resp_json rsp = Some j
         \<longrightarrow> close_exporter srv self =
               Inr (self\<lparr>world :=
                           \<lparr>requests = requests (world self)
                              @ [POST (TABLE_ROWS_API DATASETS_API d (pbi_table self)) data],
                            printed = printed (world self)
                              @ [Inserted (length (row_buffer self)) (status_code rsp),
                                 MayIndicateIssue (status_code rsp),
                                 ApiResponse j,
                                 LoadingComplete,
                                 Summary d]\<rparr>\<rparr>))
   \<and> (\<forall>cols d data rsp.
         schema self = Some cols
         \<and> pbi_buffer_size self < int (length (row_buffer self)) + 1
         \<and> dsid self = Some d
         \<and> json_dumps (row_buffer self @ [new_row_obj cols vals]) = Inr data
         \<and> rsp = srv (requests (world self)
                         @ [POST (TABLE_ROWS_API DATASETS_API d (pbi_table self)) data])
         \<and> \<not> startswith (str_int (status_code rsp)) ''2''
         \<and> resp_json rsp = None
         \<longrightarrow> write_row srv self vals = Inl ValueError)
   \<and> (\<forall>d data rsp.
         row_buffer self \<noteq> []
         \<and> dsid self = Some d
         \<and> json_dumps (row_buffer self) = Inr data
         \<and> rsp = srv (requests (world self)
                         @ [POST (TABLE_ROWS_API DATASETS_API d (pbi_table self)) data])
         \<and> \<not> startswith (str_int (status_code rsp)) ''2''
         \<and> resp_json rsp = None
         \<longrightarrow> close_exporter srv self = Inl ValueError)"
proof (intro conjI allI impI)
  fix m
  show "write_row srv self vals \<noteq> Inl (Exception m)"
    using post_buffer_no_api_error
    by (auto simp: write_row_def Let_def split: option.splits sum.splits if_splits)
  show "close_exporter srv self \<noteq> Inl (Exception m)"
    using post_buffer_no_api_error
    by (auto simp: close_exporter_def split: option.splits sum.splits if_splits)
next
  fix cols d data rsp j
  assume a: "schema self = Some cols
         \<and> pbi_buffer_size self < int (length (row_buffer self)) + 1
         \<and> dsid self = Some d
         \<and> json_dumps (row_buffer self @ [new_row_obj cols vals]) = Inr data
         \<and> rsp = srv (requests (world self)
                         @ [POST (TABLE_ROWS_API DATASETS_API d (pbi_table self)) data])
         \<and> \<not> startswith (str_int (status_code rsp)) ''2''
         \<and> resp_json rsp = Some j"
  let ?self = "self\<lparr>row_buffer := row_buffer self @ [new_row_obj cols vals]\<rparr>"
  have "post_buffer srv ?self =
           Inr (?self\<lparr>world :=
                  \<lparr>requests = requests (world ?self)
                                @ [POST (TABLE_ROWS_API DATASETS_API d (pbi_table ?self)) data],
                   printed = printed (world ?self)
                               @ [Inserted (length (row_buffer ?self)) (status_code rsp),
                                  MayIndicateIssue (status_code rsp),
                                  ApiResponse j]\<rparr>\<rparr>)"
    by (rule post_buffer_logged) (use a in auto)
  with a show "write_row srv self vals =
               Inr (self\<lparr>row_buffer := [],
                         row_index := row_index self + 1,
                         world :=
                           \<lparr>requests = requests (world self)
                              @ [POST (TABLE_ROWS_API DATASETS_API d (pbi_table self)) data],
                            printed = printed (world self)
                              @ [Inserted (length (row_buffer self) + 1) (status_code rsp),
                                 MayIndicateIssue (status_code rsp),
                                 ApiResponse j]\<rparr>\<rparr>)"
    by (simp add: write_row_def Let_def)
next
  fix d data rsp j
  assume a: "row_buffer self \<noteq> []
         \<and> dsid self = Some d
         \<and> json_dumps (row_buffer self) = Inr data
         \<and> rsp = srv (requests (world self)
                         @ [POST (TABLE_ROWS_API DATASETS_API d (pbi_table self)) data])
         \<and> \<not> startswith (str_int (status_code rsp)) ''2''
         \<and> resp_json rsp = Some j"
  have "post_buffer srv self =
           Inr (self\<lparr>world :=
                  \<lparr>requests = requests (world self)
                                @ [POST (TABLE_ROWS_API DATASETS_API d (pbi_table self)) data],
                   printed = printed (world self)
                               @ [Inserted (length (row_buffer self)) (status_code rsp),
                                  MayIndicateIssue (status_code rsp),
                                  ApiResponse j]\<rparr>\<rparr>)"
    by (rule post_buffer_logged) (use a in auto)
  with a show "close_exporter srv self =
               Inr (self\<lparr>world :=
                           \<lparr>requests = requests (world self)
                              @ [POST (TABLE_ROWS_API DATASETS_API d (pbi_table self)) data],
                            printed = printed (world self)
                              @ [Inserted (length (row_buffer self)) (status_code rsp),
                                 MayIndicateIssue (status_code rsp),
                                 ApiResponse j,
                                 LoadingComplete,
                                 Summary d]\<rparr>\<rparr>)"
    by (simp add: close_exporter_def emit_def)
next
  fix cols d data rsp
  assume a: "schema self = Some cols
         \<and> pbi_buffer_size self < int (length (row_buffer self)) + 1
         \<and> dsid self = Some d
         \<and> json_dumps (row_buffer self @ [new_row_obj cols vals]) = Inr data
         \<and> rsp = srv (requests (world self)
                         @ [POST (TABLE_ROWS_API DATASETS_API d (pbi_table self)) data])
         \<and> \<not> startswith (str_int (status_code rsp)) ''2''
         \<and> resp_json rsp = None"
  let ?self = "self\<lparr>row_buffer := row_buffer self @ [new_row_obj cols vals]\<rparr>"
  have "post_buffer srv ?self = Inl ValueError"
    by (rule post_buffer_not_json [where d = d and data = data and rsp = rsp]) (use a in auto)
  with a show "write_row srv self vals = Inl ValueError"
    by (simp add: write_row_def Let_def)
next
  fix d data rsp
  assume a: "row_buffer self \<noteq> []
         \<and> dsid self = Some d
         \<and> json_dumps (row_buffer self) = Inr data
         \<and> rsp = srv (requests (world self)
                         @ [POST (TABLE_ROWS_API DATASETS_API d (pbi_table self)) data])
         \<and> \<not> startswith (str_int (status_code rsp)) ''2''
         \<and> resp_json rsp = None"
  have "post_buffer srv self = Inl ValueError"
    by (rule post_buffer_not_json [where d = d and data = data and rsp = rsp]) (use a in auto)
  with a show "close_exporter srv self = Inl ValueError"
    by (simp add: close_exporter_def)
qed

lemma gone_not_2xx: "\<not> startswith (str_int (status_code gone_response)) ''2''"
  by code_simp

lemma bad_gateway_not_2xx: "\<not> startswith (str_int (status_code bad_gateway_response)) ''2''"
  by code_simp

lemma failed_not_2xx: "\<not> startswith (str_int (status_code failed_response)) ''2''"
  by code_simp

lemma one_row_dumps:
  "json_dumps [new_row_obj sales_schema [PInt 7]] = Inr (JArr [JObj [(''amt'', JInt 7)]])"
  by (simp add: json_dumps_def new_row_obj_def sales_schema_def)

theorem flush_failure_is_printed_witness:
  "write_row (always gone_response) tiny_exporter [PInt 7] =
     Inr (tiny_exporter
            \<lparr>row_index := 1,
             world :=
               \<lparr>requests = [POST (TABLE_ROWS_API DATASETS_API (JStr ''ds-new'') ''dss-data'')
                                 (JArr [JObj [(''amt'', JInt 7)]])],
                printed = [Inserted 1 404, MayIndicateIssue 404,
                           ApiResponse (JObj [(''error'', JObj [(''message'', JStr ''Dataset is gone'')])])]\<rparr>\<rparr>)
   \<and> close_exporter (always gone_response) pending_exporter =
       Inr (pending_exporter
              \<lparr>world :=
                 \<lparr>requests = [POST (TABLE_ROWS_API DATASETS_API (JStr ''ds-new'') ''dss-data'')
                                   (JArr [JObj [(''amt'', JInt 7)]])],
                  printed = [Inserted 1 404, MayIndicateIssue 404,
                             ApiResponse (JObj [(''error'', JObj [(''message'', JStr ''Dataset is gone'')])]),
                             LoadingComplete, Summary (JStr ''ds-new'')]\<rparr>\<rparr>)
   \<and> write_row (always bad_gateway_response) tiny_exporter [PInt 7] = Inl ValueError
   \<and> close_exporter (always bad_gateway_response) pending_exporter = Inl ValueError"
proof -
  let ?body = "JArr [JObj [(''amt'', JInt 7)]]"
  let ?j = "JObj [(''error'', JObj [(''message'', JStr ''Dataset is gone'')])]"
  have w: "schema tiny_exporter = Some sales_schema
         \<and> pbi_buffer_size tiny_exporter < int (length (row_buffer tiny_exporter)) + 1
         \<and> dsid tiny_exporter = Some (JStr ''ds-new'')
         \<and> json_dumps (row_buffer tiny_exporter @ [new_row_obj sales_schema [PInt 7]]) = Inr ?body
         \<and> gone_response = always gone_response (requests (world tiny_exporter)
                         @ [POST (TABLE_ROWS_API DATASETS_API (JStr ''ds-new'') (pbi_table tiny_exporter)) ?body])
         \<and> \<not> startswith (str_int (status_code gone_response)) ''2''
         \<and> resp_json gone_response = Some ?j"
    using gone_not_2xx one_row_dumps
    by (simp add: tiny_exporter_def opened_exporter_def created_exporter_def always_def)
      (simp add: gone_response_def)
  have c: "row_buffer pending_exporter \<noteq> []
         \<and> dsid pending_exporter = Some (JStr ''ds-new'')
         \<and> json_dumps (row_buffer pending_exporter) = Inr ?body
         \<and> gone_response = always gone_response (requests (world pending_exporter)
                         @ [POST (TABLE_ROWS_API DATASETS_API (JStr ''ds-new'') (pbi_table pending_exporter)) ?body])
         \<and> \<not> startswith (str_int (status_code gone_response)) ''2''
         \<and> resp_json gone_response = Some ?j"
    using gone_not_2xx
    by (simp add: pending_exporter_def opened_exporter_def created_exporter_def always_def json_dumps_def)
      (simp add: gone_response_def)
  note t = flush_failure_is_printed [of "always gone_response" tiny_exporter "[PInt 7]"]
  note u = flush_failure_is_printed [of "always gone_response" pending_exporter "[PInt 7]"]
  from w have "write_row (always gone_response) tiny_exporter [PInt 7] =
               Inr (tiny_exporter\<lparr>row_buffer := [],
                         row_index := row_index tiny_exporter + 1,
                         world :=
                           \<lparr>requests = requests (world tiny_exporter)
                              @ [POST (TABLE_ROWS_API DATASETS_API (JStr ''ds-new'') (pbi_table tiny_exporter)) ?body],
                            printed = printed (world tiny_exporter)
                              @ [Inserted (length (row_buffer tiny_exporter) + 1) (status_code gone_response),
                                 MayIndicateIssue (status_code gone_response),
                                 ApiResponse ?j]\<rparr>\<rparr>)"
    by (rule t [THEN conjunct2, THEN conjunct2, THEN conjunct1, rule_format])
  moreover from c have "close_exporter (always gone_response) pending_exporter =
               Inr (pending_exporter\<lparr>world :=
                           \<lparr>requests = requests (world pending_exporter)
                              @ [POST (TABLE_ROWS_API DATASETS_API (JStr ''ds-new'') (pbi_table pending_exporter)) ?body],
                            printed = printed (world pending_exporter)
                              @ [Inserted (length (row_buffer pending_exporter)) (status_code gone_response),
                                 MayIndicateIssue (status_code gone_response),
                                 ApiResponse ?j,
                                 LoadingComplete,
                                 Summary (JStr ''ds-new'')]\<rparr>\<rparr>)"
    by (rule u [THEN conjunct2, THEN conjunct2, THEN conjunct2, THEN conjunct1, rule_format])
  moreover have "write_row (always bad_gateway_response) tiny_exporter [PInt 7] = Inl ValueError"
  proof -
    have "schema tiny_exporter = Some sales_schema
         \<and> pbi_buffer_size tiny_exporter < int (length (row_buffer tiny_exporter)) + 1
         \<and> dsid tiny_exporter = Some (JStr ''ds-new'')
         \<and> json_dumps (row_buffer tiny_exporter @ [new_row_obj sales_schema [PInt 7]]) = Inr ?body
         \<and> bad_gateway_response = always bad_gateway_response (requests (world tiny_exporter)
                         @ [POST (TABLE_ROWS_API DATASETS_API (JStr ''ds-new'') (pbi_table tiny_exporter)) ?body])
         \<and> \<not> startswith (str_int (status_code bad_gateway_response)) ''2''
         \<and> resp_json bad_gateway_response = None"
      using bad_gateway_not_2xx one_row_dumps
      by (simp add: tiny_exporter_def opened_exporter_def created_exporter_def always_def)
        (simp add: bad_gateway_response_def)
    then show ?thesis
      by (rule flush_failure_is_printed [of "always bad_gateway_response" tiny_exporter "[PInt 7]",
            THEN conjunct2, THEN conjunct2, THEN conjunct2, THEN conjunct2, THEN conjunct1,
            rule_format])
  qed
  moreover have "close_exporter (always bad_gateway_response) pending_exporter = Inl ValueError"
  proof -
    have "row_buffer pending_exporter \<noteq> []
         \<and> dsid pending_exporter = Some (JStr ''ds-new'')
         \<and> json_dumps (row_buffer pending_exporter) = Inr ?body
         \<and> bad_gateway_response = always bad_gateway_response (requests (world pending_exporter)
                         @ [POST (TABLE_ROWS_API DATASETS_API (JStr ''ds-new'') (pbi_table pending_exporter)) ?body])
         \<and> \<not> startswith (str_int (status_code bad_gateway_response)) ''2''
         \<and> resp_json bad_gateway_response = None"
      using bad_gateway_not_2xx
      by (simp add: pending_exporter_def opened_exporter_def created_exporter_def always_def json_dumps_def)
        (simp add: bad_gateway_response_def)
    then show ?thesis
      by (rule flush_failure_is_printed [of "always bad_gateway_response" pending_exporter "[PInt 7]",
            THEN conjunct2, THEN conjunct2, THEN conjunct2, THEN conjunct2, THEN conjunct2,
            rule_format])
  qed
  ultimately show ?thesis
    by (simp add: tiny_exporter_def pending_exporter_def opened_exporter_def created_exporter_def
          world0_def gone_response_def)
qed

text \<open>
  The claim as first stated fails: with status 500 from the table-rows endpoint, the flush
  in \<^verbatim>\<open>write_row\<close> and the flush in \<^verbatim>\<open>close\<close> both return, the rows counted as inserted.
\<close>

theorem flush_failure_counterexample:
  "write_row (always failed_response) tiny_exporter [PInt 7] =
     Inr (tiny_exporter
            \<lparr>row_index := 1,
             world :=
               \<lparr>requests = [POST (TABLE_ROWS_API DATASETS_API (JStr ''ds-new'') ''dss-data'')
                                 (JArr [JObj [(''amt'', JInt 7)]])],
                printed = [Inserted 1 500, MayIndicateIssue 500,
                           ApiResponse (JObj [(''error'', JObj [(''message'', JStr ''Internal error'')])])]\<rparr>\<rparr>)
   \<and> close_exporter (always failed_response) pending_exporter =
       Inr (pending_exporter
              \<lparr>world :=
                 \<lparr>requests = [POST (TABLE_ROWS_API DATASETS_API (JStr ''ds-new'') ''dss-data'')
                                   (JArr [JObj [(''amt'', JInt 7)]])],
                  printed = [Inserted 1 500, MayIndicateIssue 500,
                             ApiResponse (JObj [(''error'', JObj [(''message'', JStr ''Internal error'')])]),
                             LoadingComplete, Summary (JStr ''ds-new'')]\<rparr>\<rparr>)"
proof -
  have "post_buffer (always failed_response)
          (tiny_exporter\<lparr>row_buffer := [new_row_obj sales_schema [PInt 7]]\<rparr>) =
        Inr (tiny_exporter
            \<lparr>row_buffer := [new_row_obj sales_schema [PInt 7]],
             world :=
               \<lparr>requests = [POST (TABLE_ROWS_API DATASETS_API (JStr ''ds-new'') ''dss-data'')
                                 (JArr [JObj [(''amt'', JInt 7)]])],
                printed = [Inserted 1 500, MayIndicateIssue 500,
                           ApiResponse (JObj [(''error'', JObj [(''message'', JStr ''Internal error'')])])]\<rparr>\<rparr>)"
    using failed_not_2xx one_row_dumps
    by (simp add: post_buffer_def tiny_exporter_def opened_exporter_def created_exporter_def
          send_def always_def world0_def emit_def)
      (simp add: failed_response_def emit_def)
  moreover have "post_buffer (always failed_response) pending_exporter =
        Inr (pending_exporter
              \<lparr>world :=
                 \<lparr>requests = [POST (TABLE_ROWS_API DATASETS_API (JStr ''ds-new'') ''dss-data'')
                                   (JArr [JObj [(''amt'', JInt 7)]])],
                  printed = [Inserted 1 500, MayIndicateIssue 500,
                             ApiResponse (JObj [(''error'', JObj [(''message'', JStr ''Internal error'')])])]\<rparr>\<rparr>)"
    using failed_not_2xx
    by (simp add: post_buffer_def pending_exporter_def opened_exporter_def created_exporter_def
          send_def always_def world0_def emit_def json_dumps_def)
      (simp add: failed_response_def emit_def)
  ultimately show ?thesis
    by (simp add: write_row_def close_exporter_def Let_def emit_def)
      (simp add: tiny_exporter_def pending_exporter_def opened_exporter_def created_exporter_def
         emit_def)
qed

section \<open>Row buffering\<close>

lemma write_row_flushed:
  assumes "schema self = Some cols"
    and "pbi_buffer_size self < int (length (row_buffer self)) + 1"
    and "write_row srv self vals = Inr self'"
  shows "\<exists>d data. dsid self = Some d
           \<and> json_dumps (row_buffer self @ [new_row_obj cols vals]) = Inr data
           \<and> requests (world self') = requests (world self)
                @ [POST (TABLE_ROWS_API DATASETS_API d (pbi_table self)) data]
           \<and> self' = self\<lparr>row_buffer := [], row_index := row_index self + 1, world := world self'\<rparr>"
proof -
  let ?self = "self\<lparr>row_buffer := row_buffer self @ [new_row_obj cols vals]\<rparr>"
  from assms obtain s1 where p: "post_buffer srv ?self = Inr s1"
    and s: "self' = s1\<lparr>row_buffer := [], row_index := row_index s1 + 1\<rparr>"
    by (auto simp: write_row_def Let_def split: sum.splits)
  from post_buffer_returned [OF p] obtain d data where
    "dsid self = Some d" "json_dumps (row_buffer self @ [new_row_obj cols vals]) = Inr data"
    "requests (world s1) = requests (world self)
                @ [POST (TABLE_ROWS_API DATASETS_API d (pbi_table self)) data]"
    "s1 = ?self\<lparr>world := world s1\<rparr>"
    by auto
  with s show ?thesis
    by (intro exI [of _ d] exI [of _ data]) (cases s1, cases self, simp)
qed

lemma write_row_fields:
  assumes "write_row srv self vals = Inr self'"
  shows "schema self' = schema self \<and> dsid self' = dsid self \<and> pbi_table self' = pbi_table self
         \<and> pbi_buffer_size self' = pbi_buffer_size self \<and> row_index self' = row_index self + 1"
proof (cases "schema self")
  case None
  with assms show ?thesis by (simp add: write_row_def)
next
  case (Some cols)
  show ?thesis
  proof (cases "pbi_buffer_size self < int (length (row_buffer self)) + 1")
    case True
    from write_row_flushed [OF Some True assms] obtain w where
      e: "self' = self\<lparr>row_buffer := [], row_index := row_index self + 1, world := w\<rparr>"
      by blast
    show ?thesis unfolding e by simp
  next
    case False
    with Some assms have "self' = self\<lparr>row_buffer := row_buffer self @ [new_row_obj cols vals],
                     row_index := row_index self + 1\<rparr>"
      by (simp add: write_row_below_capacity)
    then show ?thesis by simp
  qed
qed

lemma write_rows_append:
  "write_rows srv self (xs @ ys) =
     (case write_rows srv self xs of Inl e \<Rightarrow> Inl e | Inr s \<Rightarrow> write_rows srv s ys)"
  by (induction xs arbitrary: self) (auto split: sum.splits)

lemma write_rows_below_capacity:
  assumes "schema self = Some cols"
    and "int (length (row_buffer self) + length rows) \<le> pbi_buffer_size self"
  shows "write_rows srv self rows =
           Inr (self\<lparr>row_buffer := row_buffer self @ map (new_row_obj cols) rows,
                     row_index := row_index self + int (length rows)\<rparr>)"
  using assms
proof (induction rows arbitrary: self)
  case Nil
  then show ?case by simp
next
  case (Cons vals rows)
  let ?s = "self\<lparr>row_buffer := row_buffer self @ [new_row_obj cols vals],
                     row_index := row_index self + 1\<rparr>"
  from Cons.prems have "write_row srv self vals = Inr ?s"
    by (intro write_row_below_capacity) simp_all
  moreover from Cons.prems have "write_rows srv ?s rows =
           Inr (?s\<lparr>row_buffer := row_buffer ?s @ map (new_row_obj cols) rows,
                     row_index := row_index ?s + int (length rows)\<rparr>)"
    by (intro Cons.IH) simp_all
  ultimately show ?case by simp
qed

lemma write_row_invariant:
  assumes "write_row srv self vals = Inr self'"
    and "int (length (row_buffer self)) \<le> pbi_buffer_size self"
  shows "int (length (row_buffer self')) \<le> pbi_buffer_size self
         \<and> (\<exists>new. requests (world self') = requests (world self) @ new
                \<and> (\<forall>rq \<in> set new. \<exists>u js. rq = POST u (JArr js)
                       \<and> int (length js) = pbi_buffer_size self + 1))"
proof (cases "schema self")
  case None
  with assms show ?thesis by (simp add: write_row_def)
next
  case (Some cols)
  show ?thesis
  proof (cases "pbi_buffer_size self < int (length (row_buffer self)) + 1")
    case True
    from write_row_flushed [OF Some True assms(1)] obtain d data where
      j: "json_dumps (row_buffer self @ [new_row_obj cols vals]) = Inr data"
      and r: "requests (world self') = requests (world self)
                @ [POST (TABLE_ROWS_API DATASETS_API d (pbi_table self)) data]"
      and e: "self' = self\<lparr>row_buffer := [], row_index := row_index self + 1, world := world self'\<rparr>"
      by blast
    from json_dumps_length [OF j] obtain js where
      js: "data = JArr js" "length js = length (row_buffer self) + 1"
      by auto
    define w where "w = world self'"
    from e have "self' = self\<lparr>row_buffer := [], row_index := row_index self + 1, world := w\<rparr>"
      by (simp add: w_def)
    then have b: "row_buffer self' = []"
      by simp
    from True assms(2) js have n: "int (length js) = pbi_buffer_size self + 1"
      by simp
    have "\<forall>rq \<in> set [POST (TABLE_ROWS_API DATASETS_API d (pbi_table self)) data].
            \<exists>u js. rq = POST u (JArr js) \<and> int (length js) = pbi_buffer_size self + 1"
      using js(1) n by simp
    with r have "\<exists>new. requests (world self') = requests (world self) @ new
                \<and> (\<forall>rq \<in> set new. \<exists>u js. rq = POST u (JArr js)
                       \<and> int (length js) = pbi_buffer_size self + 1)"
      by blast
    moreover from b assms(2) have "int (length (row_buffer self')) \<le> pbi_buffer_size self"
      by simp
    ultimately show ?thesis by blast
  next
    case False
    with Some assms have "self' = self\<lparr>row_buffer := row_buffer self @ [new_row_obj cols vals],
                     row_index := row_index self + 1\<rparr>"
      by (simp add: write_row_below_capacity)
    with False show ?thesis by simp
  qed
qed

lemma write_rows_invariant:
  assumes "write_rows srv self rows = Inr self'"
    and "int (length (row_buffer self)) \<le> pbi_buffer_size self"
  shows "int (length (row_buffer self')) \<le> pbi_buffer_size self
         \<and> row_index self' = row_index self + int (length rows)
         \<and> (\<exists>new. requests (world self') = requests (world self) @ new
                \<and> (\<forall>rq \<in> set new. \<exists>u js. rq = POST u (JArr js)
                       \<and> int (length js) = pbi_buffer_size self + 1))"
  using assms
proof (induction rows arbitrary: self)
  case Nil
  then show ?case by simp
next
  case (Cons vals rows)
  from Cons.prems(1) obtain s where w: "write_row srv self vals = Inr s"
    and ws: "write_rows srv s rows = Inr self'"
    by (auto split: sum.splits)
  note f = write_row_fields [OF w]
  from write_row_invariant [OF w Cons.prems(2)] obtain new1 where
    b: "int (length (row_buffer s)) \<le> pbi_buffer_size self"
    and n1: "requests (world s) = requests (world self) @ new1"
      "\<forall>rq \<in> set new1. \<exists>u js. rq = POST u (JArr js) \<and> int (length js) = pbi_buffer_size self + 1"
    by blast
  from b f have "int (length (row_buffer s)) \<le> pbi_buffer_size s" by simp
  from Cons.IH [OF ws this] f obtain new2 where
    c: "int (length (row_buffer self')) \<le> pbi_buffer_size self"
      "row_index self' = row_index self + 1 + int (length rows)"
    and n2: "requests (world self') = requests (world s) @ new2"
      "\<forall>rq \<in> set new2. \<exists>u js. rq = POST u (JArr js) \<and> int (length js) = pbi_buffer_size self + 1"
    by auto
  from n1(1) n2(1) have r: "requests (world self') = requests (world self) @ (new1 @ new2)"
    by simp
  from n1(2) n2(2) have
    "\<forall>rq \<in> set (new1 @ new2). \<exists>u js. rq = POST u (JArr js) \<and> int (length js) = pbi_buffer_size self + 1"
    by (simp add: ball_Un)
  with r have "\<exists>new. requests (world self') = requests (world self) @ new
                \<and> (\<forall>rq \<in> set new. \<exists>u js. rq = POST u (JArr js)
                       \<and> int (length js) = pbi_buffer_size self + 1)"
    by blast
  moreover from c(2) have "row_index self' = row_index self + int (length (vals # rows))"
    by simp
  ultimately show ?case
    using c(1) by blast
qed

lemma dumps_row_ok:
  "\<forall>v \<in> snd ` set r. \<not> is_temporal v \<Longrightarrow> \<exists>j. dumps_row r = Inr j"
proof (induction r)
  case Nil
  then show ?case by simp
next
  case (Cons kv kvs)
  obtain k v where kv: "kv = (k, v)" by (cases kv)
  from Cons obtain js where "dumps_row kvs = Inr js" by auto
  moreover from Cons kv have "\<not> is_temporal v" by simp
  then obtain j where "dumps_value v = Inr j" by (cases v) auto
  ultimately show ?case by (simp add: kv)
qed

lemma new_row_obj_dumps:
  assumes "\<forall>v \<in> set vals. \<not> is_temporal v"
  shows "\<exists>j. dumps_row (new_row_obj cols vals) = Inr j"
proof (rule dumps_row_ok)
  have "snd ` set (new_row_obj cols vals) \<subseteq> snd ` set (zip cols vals)"
    using values_fill_row [of "zip cols vals" "[]"] by (simp add: new_row_obj_def)
  also have "\<dots> \<subseteq> set vals"
    by (auto dest: set_zip_rightD)
  finally show "\<forall>v \<in> snd ` set (new_row_obj cols vals). \<not> is_temporal v"
    using assms by blast
qed

lemma dumps_rows_snoc:
  "dumps_rows rs = Inr js \<Longrightarrow> dumps_row r = Inr j \<Longrightarrow> dumps_rows (rs @ [r]) = Inr (js @ [JObj j])"
  by (induction rs arbitrary: js) (auto split: sum.splits)

lemma json_dumps_snoc:
  assumes "json_dumps rs = Inr data" and "dumps_row r = Inr j"
  shows "\<exists>data'. json_dumps (rs @ [r]) = Inr data'"
  using assms by (auto simp: json_dumps_def dumps_rows_snoc split: sum.splits)

lemma post_buffer_returns:
  assumes "dsid self = Some d" and "json_dumps (row_buffer self) = Inr data"
    and "\<forall>h. resp_json (srv h) \<noteq> None \<or> startswith (str_int (status_code (srv h))) ''2''"
  shows "\<exists>self'. post_buffer srv self = Inr self'"
proof -
  let ?rsp = "srv (requests (world self) @ [POST (TABLE_ROWS_API DATASETS_API d (pbi_table self)) data])"
  from assms(3) have "resp_json ?rsp \<noteq> None \<or> startswith (str_int (status_code ?rsp)) ''2''"
    by blast
  with assms(1,2) show ?thesis
    by (auto simp: post_buffer_def send_def Let_def)
qed

lemma write_row_returns:
  assumes "schema self = Some cols" and "dsid self = Some d"
    and "json_dumps (row_buffer self) = Inr data"
    and "\<forall>v \<in> set vals. \<not> is_temporal v"
    and "\<forall>h. resp_json (srv h) \<noteq> None \<or> startswith (str_int (status_code (srv h))) ''2''"
  shows "\<exists>self' data'. write_row srv self vals = Inr self'
           \<and> json_dumps (row_buffer self') = Inr data'"
proof (cases "pbi_buffer_size self < int (length (row_buffer self)) + 1")
  case True
  let ?self = "self\<lparr>row_buffer := row_buffer self @ [new_row_obj cols vals]\<rparr>"
  from new_row_obj_dumps [OF assms(4)] obtain j where "dumps_row (new_row_obj cols vals) = Inr j"
    by blast
  from json_dumps_snoc [OF assms(3) this] obtain data' where
    "json_dumps (row_buffer ?self) = Inr data'"
    by auto
  moreover from assms(2) have "dsid ?self = Some d" by simp
  ultimately obtain s where "post_buffer srv ?self = Inr s"
    using post_buffer_returns assms(5) by blast
  with True assms(1) show ?thesis
    by (simp add: write_row_def Let_def json_dumps_def)
next
  case False
  from new_row_obj_dumps [OF assms(4)] obtain j where "dumps_row (new_row_obj cols vals) = Inr j"
    by blast
  from json_dumps_snoc [OF assms(3) this] False assms(1) show ?thesis
    by (auto simp: write_row_below_capacity)
qed

lemma write_rows_returns:
  assumes "schema self = Some cols" and "dsid self = Some d"
    and "json_dumps (row_buffer self) = Inr data"
    and "\<forall>vals \<in> set rows. \<forall>v \<in> set vals. \<not> is_temporal v"
    and "\<forall>h. resp_json (srv h) \<noteq> None \<or> startswith (str_int (status_code (srv h))) ''2''"
  shows "\<exists>self' data'. write_rows srv self rows = Inr self'
           \<and> json_dumps (row_buffer self') = Inr data'"
  using assms(1-4)
proof (induction rows arbitrary: self data)
  case Nil
  then show ?case by simp
next
  case (Cons vals rows)
  from Cons.prems have "\<forall>v \<in> set vals. \<not> is_temporal v" by simp
  from write_row_returns [OF Cons.prems(1-3) this assms(5)] obtain s data' where
    w: "write_row srv self vals = Inr s" and j: "json_dumps (row_buffer s) = Inr data'"
    by blast
  from write_row_fields [OF w] Cons.prems have "schema s = Some cols" "dsid s = Some d"
    by simp_all
  from Cons.IH [OF this j] Cons.prems(4) w show ?case
    by simp
qed

lemma close_exporter_returns:
  assumes "dsid self = Some d" and "json_dumps (row_buffer self) = Inr data"
    and "\<forall>h. resp_json (srv h) \<noteq> None \<or> startswith (str_int (status_code (srv h))) ''2''"
  shows "\<exists>self'. close_exporter srv self = Inr self'"
proof (cases "row_buffer self = []")
  case True
  with assms(1) show ?thesis by (simp add: close_exporter_def)
next
  case False
  from post_buffer_returns [OF assms] obtain s where p: "post_buffer srv self = Inr s"
    by blast
  from post_buffer_returned [OF p] assms(1) have "dsid s = Some d"
    by (metis exporter.select_convs(8) exporter.surjective exporter.update_convs(9))
  with p False show ?thesis by (simp add: close_exporter_def)
qed

section \<open>Flushes and the row index\<close>

lemma ok_is_2xx: "startswith (str_int (status_code ok_response)) ''2''"
  by code_simp

lemma four_rows_run: "write_rows (always ok_response) opened_exporter four_rows = Inr after_four_rows"
  using ok_is_2xx
  by (simp add: four_rows_def write_row_def post_buffer_def Let_def send_def emit_def always_def
        opened_exporter_def created_exporter_def world0_def new_row_obj_def sales_schema_def
        json_dumps_def after_four_rows_def)
    (simp add: ok_response_def)

text \<open>
  Claim C7. A \<^verbatim>\<open>write_row\<close> that returns has added one to the row index, flush or no
  flush. Over any sequence of \<^verbatim>\<open>write_row\<close> calls that starts with the buffer within
  capacity, as it is on a new adapter of capacity 0 or more, every request made is a post of
  exactly capacity + 1 rows, the buffer is within capacity again after each call, and the
  row index has grown by the number of calls.
\<close>

theorem flush_at_capacity_plus_one:
  "(\<forall>self'. write_row srv self vals = Inr self' \<longrightarrow> row_index self' = row_index self + 1)
   \<and> (\<forall>self'. int (length (row_buffer self)) \<le> pbi_buffer_size self
               \<and> write_rows srv self rows = Inr self' \<longrightarrow>
          row_index self' = row_index self + int (length rows)
          \<and> int (length (row_buffer self')) \<le> pbi_buffer_size self
          \<and> (\<exists>new. requests (world self') = requests (world self) @ new
                 \<and> (\<forall>rq \<in> set new. \<exists>u js. rq = POST u (JArr js)
                        \<and> int (length js) = pbi_buffer_size self + 1)))"
  using write_row_fields write_rows_invariant by blast

theorem flush_at_capacity_plus_one_witness:
  "write_row (always ok_response) opened_exporter [PInt 1] =
     Inr (opened_exporter\<lparr>row_buffer := [[(''amt'', PInt 1)]], row_index := 1\<rparr>)
   \<and> write_rows (always ok_response) opened_exporter four_rows = Inr after_four_rows
   \<and> row_index after_four_rows = 4
   \<and> length (row_buffer after_four_rows) = 1
   \<and> requests (world after_four_rows) =
       [POST (TABLE_ROWS_API DATASETS_API (JStr ''ds-new'') ''dss-data'')
          (JArr [JObj [(''amt'', JInt 1)], JObj [(''amt'', JInt 2)], JObj [(''amt'', JInt 3)]])]"
proof -
  note t = flush_at_capacity_plus_one
    [of "always ok_response" opened_exporter "[PInt 1]" four_rows]
  have one: "write_row (always ok_response) opened_exporter [PInt 1] =
     Inr (opened_exporter\<lparr>row_buffer := [[(''amt'', PInt 1)]], row_index := 1\<rparr>)"
    by (simp add: write_row_def Let_def opened_exporter_def created_exporter_def new_row_obj_def
          sales_schema_def)
  have "int (length (row_buffer opened_exporter)) \<le> pbi_buffer_size opened_exporter"
    by (simp add: opened_exporter_def created_exporter_def)
  with t four_rows_run have
    "row_index after_four_rows = row_index opened_exporter + int (length four_rows)"
    by blast
  then have "row_index after_four_rows = 4"
    by (simp add: four_rows_def opened_exporter_def created_exporter_def)
  with one four_rows_run show ?thesis
    by (simp add: after_four_rows_def)
qed

section \<open>Row buffering from an empty buffer\<close>

lemma close_exporter_requests:
  assumes "close_exporter srv self = Inr self'"
  shows "if row_buffer self = [] then requests (world self') = requests (world self)
         else \<exists>d data. dsid self = Some d \<and> json_dumps (row_buffer self) = Inr data
                \<and> requests (world self') = requests (world self)
                     @ [POST (TABLE_ROWS_API DATASETS_API d (pbi_table self)) data]"
proof (cases "row_buffer self = []")
  case True
  with assms show ?thesis
    by (auto simp: close_exporter_def emit_def split: option.splits)
next
  case False
  with assms obtain s where p: "post_buffer srv self = Inr s"
    and r: "requests (world self') = requests (world s)"
    by (auto simp: close_exporter_def emit_def split: option.splits sum.splits)
  from post_buffer_returned [OF p] r False show ?thesis
    by auto
qed

text \<open>
  Claim C2. On an opened adapter with an empty buffer and a capacity \<open>n\<close> of 0 or more:
  \<^verbatim>\<open>write_row\<close> calls for \<open>n + 1\<close> rows that return have made exactly one request, a
  post of those \<open>n + 1\<close> row objects in order, and left the buffer empty; calls for at most
  \<open>n\<close> rows always return and make no request, the rows staying in the buffer; a \<^verbatim>\<open>close\<close>
  after at least one and at most \<open>n\<close> rows makes exactly one request, a post of exactly those
  rows; and \<^verbatim>\<open>close\<close> on the empty buffer makes no request. The calls do return when the
  dataset id is bound, no cell is a temporal object, and every response either has a code
  starting with \<^verbatim>\<open>2\<close> or a JSON body.
\<close>

theorem buffering_from_empty:
  assumes "schema self = Some cols" and "row_buffer self = []" and "0 \<le> pbi_buffer_size self"
  shows
    "(\<forall>self'. int (length rows) = pbi_buffer_size self + 1
              \<and> write_rows srv self rows = Inr self' \<longrightarrow>
        (\<exists>d js. dsid self = Some d
           \<and> json_dumps (map (new_row_obj cols) rows) = Inr (JArr js)
           \<and> length js = length rows
           \<and> requests (world self') = requests (world self)
                @ [POST (TABLE_ROWS_API DATASETS_API d (pbi_table self)) (JArr js)]
           \<and> row_buffer self' = []))
     \<and> (int (length rows) \<le> pbi_buffer_size self \<longrightarrow>
          (\<exists>self'. write_rows srv self rows = Inr self'
             \<and> requests (world self') = requests (world self)
             \<and> row_buffer self' = map (new_row_obj cols) rows))
     \<and> (\<forall>self' self''. rows \<noteq> [] \<and> int (length rows) \<le> pbi_buffer_size self
              \<and> write_rows srv self rows = Inr self'
              \<and> close_exporter srv self' = Inr self'' \<longrightarrow>
          (\<exists>d js. dsid self = Some d
             \<and> json_dumps (map (new_row_obj cols) rows) = Inr (JArr js)
             \<and> length js = length rows
             \<and> requests (world self'') = requests (world self)
                  @ [POST (TABLE_ROWS_API DATASETS_API d (pbi_table self)) (JArr js)]))
     \<and> (\<forall>self''. close_exporter srv self = Inr self'' \<longrightarrow>
          requests (world self'') = requests (world self))
     \<and> (dsid self \<noteq> None
          \<and> (\<forall>vals \<in> set rows. \<forall>v \<in> set vals. \<not> is_temporal v)
          \<and> (\<forall>h. resp_json (srv h) \<noteq> None \<or> startswith (str_int (status_code (srv h))) ''2'')
          \<longrightarrow> (\<exists>self' self''. write_rows srv self rows = Inr self'
                  \<and> close_exporter srv self' = Inr self''))"
proof (intro conjI allI impI)
  fix self'
  assume a: "int (length rows) = pbi_buffer_size self + 1 \<and> write_rows srv self rows = Inr self'"
  with assms(3) have "rows \<noteq> []" by auto
  then obtain front vals where rows: "rows = front @ [vals]"
    by (metis rev_exhaust)
  let ?s = "self\<lparr>row_buffer := row_buffer self @ map (new_row_obj cols) front,
                  row_index := row_index self + int (length front)\<rparr>"
  from a rows assms have f: "write_rows srv self front = Inr ?s"
    by (intro write_rows_below_capacity) simp_all
  with a rows have w: "write_row srv ?s vals = Inr self'"
    by (simp add: write_rows_append split: sum.splits)
  have "schema ?s = Some cols" "pbi_buffer_size ?s < int (length (row_buffer ?s)) + 1"
    using assms a rows by simp_all
  from write_row_flushed [OF this w] obtain d data w' where
    d: "dsid self = Some d"
    and j: "json_dumps (map (new_row_obj cols) rows) = Inr data"
    and r: "requests (world self') = requests (world self)
              @ [POST (TABLE_ROWS_API DATASETS_API d (pbi_table self)) data]"
    and e: "self' = ?s\<lparr>row_buffer := [], row_index := row_index ?s + 1, world := w'\<rparr>"
    using assms(2) rows by auto
  from json_dumps_length [OF j] obtain js where "data = JArr js" "length js = length rows"
    by auto
  moreover from e have "row_buffer self' = []" by simp
  ultimately show "\<exists>d js. dsid self = Some d
           \<and> json_dumps (map (new_row_obj cols) rows) = Inr (JArr js)
           \<and> length js = length rows
           \<and> requests (world self') = requests (world self)
                @ [POST (TABLE_ROWS_API DATASETS_API d (pbi_table self)) (JArr js)]
           \<and> row_buffer self' = []"
    using d j r by auto
next
  assume "int (length rows) \<le> pbi_buffer_size self"
  with assms have "write_rows srv self rows =
           Inr (self\<lparr>row_buffer := row_buffer self @ map (new_row_obj cols) rows,
                     row_index := row_index self + int (length rows)\<rparr>)"
    by (intro write_rows_below_capacity) simp_all
  with assms(2) show "\<exists>self'. write_rows srv self rows = Inr self'
             \<and> requests (world self') = requests (world self)
             \<and> row_buffer self' = map (new_row_obj cols) rows"
    by simp
next
  fix self' self''
  assume a: "rows \<noteq> [] \<and> int (length rows) \<le> pbi_buffer_size self
              \<and> write_rows srv self rows = Inr self'
              \<and> close_exporter srv self' = Inr self''"
  with assms have "write_rows srv self rows =
           Inr (self\<lparr>row_buffer := row_buffer self @ map (new_row_obj cols) rows,
                     row_index := row_index self + int (length rows)\<rparr>)"
    by (intro write_rows_below_capacity) simp_all
  with a assms(2) have s: "self' = self\<lparr>row_buffer := map (new_row_obj cols) rows,
                     row_index := row_index self + int (length rows)\<rparr>"
    by simp
  from a have "close_exporter srv self' = Inr self''" by simp
  from close_exporter_requests [OF this] a s obtain d data where
    d: "dsid self = Some d" and j: "json_dumps (map (new_row_obj cols) rows) = Inr data"
    and r: "requests (world self'') = requests (world self)
              @ [POST (TABLE_ROWS_API DATASETS_API d (pbi_table self)) data]"
    by auto
  from json_dumps_length [OF j] obtain js where "data = JArr js" "length js = length rows"
    by auto
  with d j r show "\<exists>d js. dsid self = Some d
             \<and> json_dumps (map (new_row_obj cols) rows) = Inr (JArr js)
             \<and> length js = length rows
             \<and> requests (world self'') = requests (world self)
                  @ [POST (TABLE_ROWS_API DATASETS_API d (pbi_table self)) (JArr js)]"
    by auto
next
  fix self''
  assume "close_exporter srv self = Inr self''"
  from close_exporter_requests [OF this] assms(2)
  show "requests (world self'') = requests (world self)"
    by simp
next
  assume a: "dsid self \<noteq> None
          \<and> (\<forall>vals \<in> set rows. \<forall>v \<in> set vals. \<not> is_temporal v)
          \<and> (\<forall>h. resp_json (srv h) \<noteq> None \<or> startswith (str_int (status_code (srv h))) ''2'')"
  then obtain d where d: "dsid self = Some d" by auto
  have e: "json_dumps (row_buffer self) = Inr (JArr [])"
    using assms(2) by (simp add: json_dumps_def)
  from a have v: "\<forall>vals \<in> set rows. \<forall>v \<in> set vals. \<not> is_temporal v"
    and g: "\<forall>h. resp_json (srv h) \<noteq> None \<or> startswith (str_int (status_code (srv h))) ''2''"
    by blast+
  from write_rows_returns [OF assms(1) d e v g] obtain self' data' where
    w: "write_rows srv self rows = Inr self'" and j: "json_dumps (row_buffer self') = Inr data'"
    by blast
  have "dsid self' = Some d"
    using w d
  proof (induction rows arbitrary: self)
    case Nil
    then show ?case by simp
  next
    case (Cons vals rows)
    then show ?case
      by (auto split: sum.splits dest: write_row_fields)
  qed
  from close_exporter_returns [OF this j g] w
  show "\<exists>self' self''. write_rows srv self rows = Inr self' \<and> close_exporter srv self' = Inr self''"
    by blast
qed

lemma three_rows_run:
  "write_rows (always ok_response) opened_exporter three_rows = Inr after_three_rows"
  using ok_is_2xx
  by (simp add: three_rows_def write_row_def post_buffer_def Let_def send_def emit_def always_def
        opened_exporter_def created_exporter_def world0_def new_row_obj_def sales_schema_def
        json_dumps_def after_three_rows_def)
    (simp add: ok_response_def)

lemma two_rows_run:
  "write_rows (always ok_response) opened_exporter two_rows = Inr after_two_rows"
  by (simp add: two_rows_def write_row_def Let_def opened_exporter_def created_exporter_def
        new_row_obj_def sales_schema_def after_two_rows_def)

lemma close_after_two_rows_run:
  "close_exporter (always ok_response) after_two_rows = Inr closed_after_two_rows"
  using ok_is_2xx
  by (simp add: close_exporter_def post_buffer_def Let_def send_def emit_def always_def
        after_two_rows_def opened_exporter_def created_exporter_def world0_def json_dumps_def
        closed_after_two_rows_def)
    (simp add: ok_response_def)

theorem buffering_from_empty_witness:
  "write_rows (always ok_response) opened_exporter three_rows = Inr after_three_rows
   \<and> requests (world after_three_rows) =
       [POST (TABLE_ROWS_API DATASETS_API (JStr ''ds-new'') ''dss-data'')
          (JArr [JObj [(''amt'', JInt 1)], JObj [(''amt'', JInt 2)], JObj [(''amt'', JInt 3)]])]
   \<and> row_buffer after_three_rows = []
   \<and> write_rows (always ok_response) opened_exporter two_rows = Inr after_two_rows
   \<and> requests (world after_two_rows) = []
   \<and> close_exporter (always ok_response) after_two_rows = Inr closed_after_two_rows
   \<and> requests (world closed_after_two_rows) =
       [POST (TABLE_ROWS_API DATASETS_API (JStr ''ds-new'') ''dss-data'')
          (JArr [JObj [(''amt'', JInt 1)], JObj [(''amt'', JInt 2)]])]"
proof -
  have h: "schema opened_exporter = Some sales_schema" "row_buffer opened_exporter = []"
    "0 \<le> pbi_buffer_size opened_exporter"
    by (simp_all add: opened_exporter_def created_exporter_def)
  note three = buffering_from_empty [OF h, of three_rows "always ok_response"]
  note two = buffering_from_empty [OF h, of two_rows "always ok_response"]
  have "int (length three_rows) = pbi_buffer_size opened_exporter + 1"
    by (simp add: three_rows_def opened_exporter_def created_exporter_def)
  with three three_rows_run obtain d js where
    "requests (world after_three_rows) = requests (world opened_exporter)
       @ [POST (TABLE_ROWS_API DATASETS_API d (pbi_table opened_exporter)) (JArr js)]"
    "dsid opened_exporter = Some d"
    "json_dumps (map (new_row_obj sales_schema) three_rows) = Inr (JArr js)"
    "row_buffer after_three_rows = []"
    by blast
  then have a: "requests (world after_three_rows) =
       [POST (TABLE_ROWS_API DATASETS_API (JStr ''ds-new'') ''dss-data'')
          (JArr [JObj [(''amt'', JInt 1)], JObj [(''amt'', JInt 2)], JObj [(''amt'', JInt 3)]])]"
    "row_buffer after_three_rows = []"
    by (auto simp: opened_exporter_def created_exporter_def world0_def three_rows_def
          json_dumps_def new_row_obj_def sales_schema_def)
  have l: "two_rows \<noteq> [] \<and> int (length two_rows) \<le> pbi_buffer_size opened_exporter"
    by (simp add: two_rows_def opened_exporter_def created_exporter_def)
  with two two_rows_run have b: "requests (world after_two_rows) = requests (world opened_exporter)"
    by auto
  from two l two_rows_run close_after_two_rows_run obtain d js where
    "requests (world closed_after_two_rows) = requests (world opened_exporter)
       @ [POST (TABLE_ROWS_API DATASETS_API d (pbi_table opened_exporter)) (JArr js)]"
    "dsid opened_exporter = Some d"
    "json_dumps (map (new_row_obj sales_schema) two_rows) = Inr (JArr js)"
    by blast
  then have c: "requests (world closed_after_two_rows) =
       [POST (TABLE_ROWS_API DATASETS_API (JStr ''ds-new'') ''dss-data'')
          (JArr [JObj [(''amt'', JInt 1)], JObj [(''amt'', JInt 2)]])]"
    by (auto simp: opened_exporter_def created_exporter_def world0_def two_rows_def
          json_dumps_def new_row_obj_def sales_schema_def)
  from b have "requests (world after_two_rows) = []"
    by (simp add: opened_exporter_def created_exporter_def world0_def)
  with a c three_rows_run two_rows_run close_after_two_rows_run show ?thesis
    by blast
qed

section \<open>Opening the adapter\<close>

lemma requests_emit: "requests (emit l w) = requests w"
  by (simp add: emit_def)

lemma delete_dataset_requests:
  assumes "delete_dataset srv i JNull w = Inr (rsp, w')"
  shows "requests w' = requests w @ [DELETE (DATASET_URL DATASETS_API i)]"
  using assms
  by (auto simp: delete_dataset_def send_def Let_def assert_response_ok_def emit_def
        handle_exception_message_def get_datasets_base_url_def split: if_splits sum.splits)

lemma delete_each_requests:
  "delete_each srv ids w = Inr w' \<Longrightarrow>
   requests w' = requests w @ map (\<lambda>i. DELETE (DATASET_URL DATASETS_API i)) ids"
proof (induction ids arbitrary: w)
  case Nil
  then show ?case by simp
next
  case (Cons i ids)
  then obtain rsp w1 where d: "delete_dataset srv i JNull w = Inr (rsp, w1)"
    and e: "delete_each srv ids w1 = Inr w'"
    by (auto split: sum.splits)
  from Cons.IH [OF e] delete_dataset_requests [OF d] show ?case by simp
qed

lemma delete_each_returns:
  assumes "\<forall>h. status_code (srv h) < 400"
  shows "\<exists>w'. delete_each srv ids w = Inr w'"
proof (induction ids arbitrary: w)
  case Nil
  then show ?case by simp
next
  case (Cons i ids)
  from assms obtain rsp w1 where "delete_dataset srv i JNull w = Inr (rsp, w1)"
    by (auto simp: delete_dataset_def send_def Let_def assert_response_ok_def not_le [symmetric]
          simp del: not_le)
  with Cons.IH [of w1] show ?case by auto
qed

lemma reply_id:
  assumes "reply_get rsp ''id'' = Inr i" and "i \<noteq> JNull"
  shows "reply_index rsp ''id'' = Inr i \<and> (\<exists>j. rsp = Parsed j \<and> field ''id'' j = Some i)"
proof (cases rsp)
  case (Parsed j)
  with assms show ?thesis
    by (cases j) (auto split: option.splits)
next
  case (Raw r)
  with assms show ?thesis by simp
qed

lemma post_parsed:
  assumes "post srv u body f w = Inr (Parsed j, w')"
  shows "resp_json (srv (requests w')) = Some j"
  using assms
  by (auto simp: post_def send_def Let_def assert_response_ok_def handle_exception_message_def
        emit_def reply_of_def split: sum.splits if_splits option.splits bool.splits)

lemma open_exporter_overwrite:
  assumes "pbi_overwrite self" and "open_exporter srv self sch = Inr self'"
    and "get_dataset_by_name srv (pbi_dataset self) JNull (emit LookingForDatasets (world self))
           = Inr (ids, w1)"
  shows "\<exists>d j. requests (world self') =
                 requests w1 @ map (\<lambda>i. DELETE (DATASET_URL DATASETS_API i)) ids
                   @ [POST DATASETS_API
                        (create_dataset_payload (pbi_dataset self) (pbi_table self) sch)]
           \<and> resp_json (srv (requests (world self'))) = Some j
           \<and> field ''id'' j = Some d \<and> d \<noteq> JNull
           \<and> dsid self' = Some d \<and> schema self' = Some sch"
proof -
  from assms obtain w2 rsp w3 i d where
    del: "delete_each srv ids w1 = Inr w2"
    and cre: "create_dataset_from_schema srv (pbi_dataset self) (pbi_table self) JNull sch w2
                = Inr (rsp, w3)"
    and i: "reply_get rsp ''id'' = Inr i" "i \<noteq> JNull"
    and d: "reply_index rsp ''id'' = Inr d"
    and s: "self' = self\<lparr>schema := Some sch, dsid := Some d, world := emit (CreatedDataset d) w3\<rparr>"
    by (auto simp: open_exporter_def Let_def split: sum.splits if_splits)
  from reply_id [OF i] d obtain j where j: "rsp = Parsed j" "field ''id'' j = Some d" "d = i"
    by auto
  from cre have p: "post srv DATASETS_API
                      (create_dataset_payload (pbi_dataset self) (pbi_table self) sch) True w2
                    = Inr (Parsed j, w3)"
    by (simp add: create_dataset_from_schema_def get_datasets_base_url_def j)
  have r: "requests (world self') = requests w3"
    by (simp add: s requests_emit)
  from post_requests [OF p] delete_each_requests [OF del] have
    "requests w3 = requests w1 @ map (\<lambda>i. DELETE (DATASET_URL DATASETS_API i)) ids
                   @ [POST DATASETS_API
                        (create_dataset_payload (pbi_dataset self) (pbi_table self) sch)]"
    by simp
  moreover from post_parsed [OF p] have "resp_json (srv (requests w3)) = Some j" .
  ultimately show ?thesis
    using r j i s by auto
qed

lemma open_exporter_steps:
  assumes "resp_json (srv (requests (world self) @ [GET DATASETS_API])) = Some (JObj kvs)"
    and "map_of kvs ''value'' = Some (JArr ds)"
    and "\<forall>d \<in> set ds. field ''name'' d \<noteq> None \<and> field ''id'' d \<noteq> None"
    and "ids = map (\<lambda>d. the (field ''id'' d))
                 (filter (\<lambda>d. field ''name'' d = Some (JStr (pbi_dataset self))) ds)"
    and "history = requests (world self) @ [GET DATASETS_API]
                     @ map (\<lambda>i. DELETE (DATASET_URL DATASETS_API i)) ids
                     @ [POST DATASETS_API
                          (create_dataset_payload (pbi_dataset self) (pbi_table self) sch)]"
  shows
    "(\<forall>self'. pbi_overwrite self \<and> open_exporter srv self sch = Inr self' \<longrightarrow>
        requests (world self') = history
        \<and> (\<exists>d j. resp_json (srv history) = Some j \<and> field ''id'' j = Some d \<and> d \<noteq> JNull
               \<and> dsid self' = Some d)
        \<and> schema self' = Some sch)
     \<and> (\<forall>ct j d. pbi_overwrite self \<and> (\<forall>h. status_code (srv h) < 400)
           \<and> content_type (srv history) = Some ct \<and> contains ct ''application/json''
           \<and> resp_json (srv history) = Some j \<and> field ''id'' j = Some d \<and> d \<noteq> JNull \<longrightarrow>
           (\<exists>self'. open_exporter srv self sch = Inr self'))
     \<and> (\<not> pbi_overwrite self \<and> ids \<noteq> [] \<longrightarrow>
          (\<exists>self'. open_exporter srv self sch = Inr self'
             \<and> dsid self' = Some (hd ids) \<and> schema self' = Some sch
             \<and> requests (world self') = requests (world self) @ [GET DATASETS_API]))
     \<and> (\<not> pbi_overwrite self \<and> ids = [] \<longrightarrow>
          open_exporter srv self sch = Inl (SystemExit ''Dataset creation error''))"
proof -
  have b: "get_datasets_base_url JNull = DATASETS_API"
    by (simp add: get_datasets_base_url_def)
  have g1: "get_dataset_by_name srv (pbi_dataset self) JNull (emit LookingForDatasets (world self))
              = Inr (ids, (emit LookingForDatasets (world self))
                            \<lparr>requests := requests (world self) @ [GET DATASETS_API]\<rparr>)"
    using get_dataset_by_name_listing
      [of srv "emit LookingForDatasets (world self)" JNull kvs ds "pbi_dataset self"] assms(1-4)
    by (simp add: b requests_emit)
  have g2: "get_dataset_by_name srv (pbi_dataset self) JNull (world self)
              = Inr (ids, (world self)\<lparr>requests := requests (world self) @ [GET DATASETS_API]\<rparr>)"
    using get_dataset_by_name_listing [of srv "world self" JNull kvs ds "pbi_dataset self"]
      assms(1-4)
    by (simp add: b)
  show ?thesis
  proof (intro conjI allI impI)
    fix self'
    assume a: "pbi_overwrite self \<and> open_exporter srv self sch = Inr self'"
    then have "pbi_overwrite self" "open_exporter srv self sch = Inr self'" by simp_all
    from open_exporter_overwrite [OF this g1] assms(5) obtain d j where
      r: "requests (world self') = history"
      and "resp_json (srv (requests (world self'))) = Some j" "field ''id'' j = Some d"
        "d \<noteq> JNull" "dsid self' = Some d" and s: "schema self' = Some sch"
      by auto
    then have e: "\<exists>d j. resp_json (srv history) = Some j \<and> field ''id'' j = Some d \<and> d \<noteq> JNull
               \<and> dsid self' = Some d"
      by auto
    from r show "requests (world self') = history" .
    from e show "\<exists>d j. resp_json (srv history) = Some j \<and> field ''id'' j = Some d \<and> d \<noteq> JNull
               \<and> dsid self' = Some d" .
    from s show "schema self' = Some sch" .
  next
    fix ct j d
    assume a: "pbi_overwrite self \<and> (\<forall>h. status_code (srv h) < 400)
           \<and> content_type (srv history) = Some ct \<and> contains ct ''application/json''
           \<and> resp_json (srv history) = Some j \<and> field ''id'' j = Some d \<and> d \<noteq> JNull"
    let ?w1 = "(emit LookingForDatasets (world self))
                 \<lparr>requests := requests (world self) @ [GET DATASETS_API]\<rparr>"
    from a delete_each_returns [of srv ids ?w1] obtain w2 where
      del: "delete_each srv ids ?w1 = Inr w2"
      by blast
    from delete_each_requests [OF del] assms(5) have
      h: "requests w2 @ [POST DATASETS_API
            (create_dataset_payload (pbi_dataset self) (pbi_table self) sch)] = history"
      by simp
    from a have ok: "\<not> 400 \<le> status_code (srv history)"
      by (simp add: not_le)
    from a obtain fs where fs: "j = JObj fs" "map_of fs ''id'' = Some d"
      by (cases j) auto
    have cre: "create_dataset_from_schema srv (pbi_dataset self) (pbi_table self) JNull sch w2
                 = Inr (Parsed j, w2\<lparr>requests := history\<rparr>)"
      using a ok
      by (simp add: create_dataset_from_schema_def b post_def send_def Let_def h
            assert_response_ok_def reply_of_def is_json_response_def)
    from a g1 del cre fs show "\<exists>self'. open_exporter srv self sch = Inr self'"
      by (simp add: open_exporter_def Let_def)
  next
    assume a: "\<not> pbi_overwrite self \<and> ids \<noteq> []"
    then obtain i rest where "ids = i # rest" by (cases ids) auto
    with a g2 show "\<exists>self'. open_exporter srv self sch = Inr self'
             \<and> dsid self' = Some (hd ids) \<and> schema self' = Some sch
             \<and> requests (world self') = requests (world self) @ [GET DATASETS_API]"
      by (simp add: open_exporter_def Let_def requests_emit)
  next
    assume "\<not> pbi_overwrite self \<and> ids = []"
    with g2 show "open_exporter srv self sch = Inl (SystemExit ''Dataset creation error'')"
      by (simp add: open_exporter_def Let_def)
  qed
qed

text \<open>
  Claim C6. Let the service list the datasets \<open>ds\<close> and let \<open>ids\<close> be the ids of those
  whose name is the configured name. With overwrite enabled, an \<^verbatim>\<open>open\<close> that returns has
  made, after the listing, one DELETE for each of \<open>ids\<close> in order and then one POST to the datasets
  endpoint of a push-streaming dataset of the configured name with one table, whose columns
  are the schema's columns in order, each with its name and the Power BI type of its type,
  and has bound the non-null \<^verbatim>\<open>id\<close> of the response to that
  POST; it does return when no response has status 400 or more and the response to the POST
  is a JSON object with an id. With overwrite disabled, \<^verbatim>\<open>open\<close> binds the first of
  \<open>ids\<close> after the listing alone, and when \<open>ids\<close> is empty it ends the job with
  \<^verbatim>\<open>sys.exit("Dataset creation error")\<close>.
\<close>

theorem open_exporter_binds_dataset:
  assumes "resp_json (srv (requests (world self) @ [GET DATASETS_API])) = Some (JObj kvs)"
    and "map_of kvs ''value'' = Some (JArr ds)"
    and "\<forall>d \<in> set ds. field ''name'' d \<noteq> None \<and> field ''id'' d \<noteq> None"
    and "ids = map (\<lambda>d. the (field ''id'' d))
                 (filter (\<lambda>d. field ''name'' d = Some (JStr (pbi_dataset self))) ds)"
    and "history = requests (world self) @ [GET DATASETS_API]
                     @ map (\<lambda>i. DELETE (DATASET_URL DATASETS_API i)) ids
                     @ [POST DATASETS_API
                          (JObj [(''name'', JStr (pbi_dataset self)),
                                (''defaultMode'', JStr ''PushStreaming''),
                                (''tables'',
                                 JArr [JObj [(''name'', JStr (pbi_table self)),
                                             (''columns'',
                                              JArr (map (\<lambda>c.
                                                JObj [(''name'', JStr (col_name c)),
                                                      (''dataType'',
                                                       JStr (if col_type c = ''boolean'' then ''Boolean''
                                                             else if col_type c \<in> {''tinyint'', ''smallint'', ''int'', ''bigint''} then ''Int64''
                                                             else if col_type c \<in> {''float'', ''double''} then ''Double''
                                                             else if col_type c = ''date'' then ''dateTime''
                                                             else ''String''))]) sch))]])])]"
  shows
    "(\<forall>self'. pbi_overwrite self \<and> open_exporter srv self sch = Inr self' \<longrightarrow>
        requests (world self') = history
        \<and> (\<exists>d j. resp_json (srv history) = Some j \<and> field ''id'' j = Some d \<and> d \<noteq> JNull
               \<and> dsid self' = Some d)
        \<and> schema self' = Some sch)
     \<and> (\<forall>ct j d. pbi_overwrite self \<and> (\<forall>h. status_code (srv h) < 400)
           \<and> content_type (srv history) = Some ct \<and> contains ct ''application/json''
           \<and> resp_json (srv history) = Some j \<and> field ''id'' j = Some d \<and> d \<noteq> JNull \<longrightarrow>
           (\<exists>self'. open_exporter srv self sch = Inr self'))
     \<and> (\<not> pbi_overwrite self \<and> ids \<noteq> [] \<longrightarrow>
          (\<exists>self'. open_exporter srv self sch = Inr self'
             \<and> dsid self' = Some (hd ids) \<and> schema self' = Some sch
             \<and> requests (world self') = requests (world self) @ [GET DATASETS_API]))
     \<and> (\<not> pbi_overwrite self \<and> ids = [] \<longrightarrow>
          open_exporter srv self sch = Inl (SystemExit ''Dataset creation error''))"
proof -
  have p: "create_dataset_payload (pbi_dataset self) (pbi_table self) sch =
             (JObj [(''name'', JStr (pbi_dataset self)),
                                (''defaultMode'', JStr ''PushStreaming''),
                                (''tables'',
                                 JArr [JObj [(''name'', JStr (pbi_table self)),
                                             (''columns'',
                                              JArr (map (\<lambda>c.
                                                JObj [(''name'', JStr (col_name c)),
                                                      (''dataType'',
                                                       JStr (if col_type c = ''boolean'' then ''Boolean''
                                                             else if col_type c \<in> {''tinyint'', ''smallint'', ''int'', ''bigint''} then ''Int64''
                                                             else if col_type c \<in> {''float'', ''double''} then ''Double''
                                                             else if col_type c = ''date'' then ''dateTime''
                                                             else ''String''))]) sch))]])])"
    by (simp add: create_dataset_payload_def build_columns_append pbi_data_type_table)
  have h: "history = requests (world self) @ [GET DATASETS_API]
                     @ map (\<lambda>i. DELETE (DATASET_URL DATASETS_API i)) ids
                     @ [POST DATASETS_API
                          (create_dataset_payload (pbi_dataset self) (pbi_table self) sch)]"
    unfolding p by (rule assms(5))
  show ?thesis
    by (rule open_exporter_steps
          [where srv = srv and self = self and kvs = kvs and ds = ds and ids = ids
             and history = history and sch = sch, OF assms(1-4) h])
qed

lemma sales_ids:
  "map (\<lambda>d. the (field ''id'' d)) (filter (\<lambda>d. field ''name'' d = Some (JStr ''Sales'')) listed_datasets)
     = [JStr ''a1'', JStr ''c3'']"
  by (simp add: listed_datasets_def)

lemma orders_ids:
  "map (\<lambda>d. the (field ''id'' d)) (filter (\<lambda>d. field ''name'' d = Some (JStr ''Orders'')) listed_datasets)
     = []"
  by (simp add: listed_datasets_def)

theorem open_exporter_binds_dataset_witness:
  "dsid (projr (open_exporter demo_server created_exporter sales_schema)) = Some (JStr ''ds-new'')
   \<and> requests (world (projr (open_exporter demo_server created_exporter sales_schema))) =
       [GET DATASETS_API,
        DELETE (DATASET_URL DATASETS_API (JStr ''a1'')),
        DELETE (DATASET_URL DATASETS_API (JStr ''c3'')),
        POST DATASETS_API
          (JObj [(''name'', JStr ''Sales''),
                 (''defaultMode'', JStr ''PushStreaming''),
                 (''tables'',
                  JArr [JObj [(''name'', JStr ''dss-data''),
                              (''columns'',
                               JArr [JObj [(''name'', JStr ''amt''), (''dataType'', JStr ''Double'')],
                                     JObj [(''name'', JStr ''day''), (''dataType'', JStr ''dateTime'')],
                                     JObj [(''name'', JStr ''spot''), (''dataType'', JStr ''String'')]])]])])]
   \<and> dsid (projr (open_exporter demo_server reuse_exporter sales_schema)) = Some (JStr ''a1'')
   \<and> open_exporter demo_server orders_exporter sales_schema =
       Inl (SystemExit ''Dataset creation error'')"
proof -
  let ?history = "[GET DATASETS_API,
        DELETE (DATASET_URL DATASETS_API (JStr ''a1'')),
        DELETE (DATASET_URL DATASETS_API (JStr ''c3'')),
        POST DATASETS_API
          (JObj [(''name'', JStr ''Sales''),
                 (''defaultMode'', JStr ''PushStreaming''),
                 (''tables'',
                  JArr [JObj [(''name'', JStr ''dss-data''),
                              (''columns'',
                               JArr [JObj [(''name'', JStr ''amt''), (''dataType'', JStr ''Double'')],
                                     JObj [(''name'', JStr ''day''), (''dataType'', JStr ''dateTime'')],
                                     JObj [(''name'', JStr ''spot''), (''dataType'', JStr ''String'')]])]])])]"
  have l: "\<forall>d \<in> set listed_datasets. field ''name'' d \<noteq> None \<and> field ''id'' d \<noteq> None"
    by (simp add: listed_datasets_def)
  have v: "map_of [(''value'', JArr listed_datasets)] ''value'' = Some (JArr listed_datasets)"
    by simp
  have g: "resp_json (demo_server (requests (world created_exporter) @ [GET DATASETS_API])) =
             Some (JObj [(''value'', JArr listed_datasets)])"
    "resp_json (demo_server (requests (world reuse_exporter) @ [GET DATASETS_API])) =
             Some (JObj [(''value'', JArr listed_datasets)])"
    "resp_json (demo_server (requests (world orders_exporter) @ [GET DATASETS_API])) =
             Some (JObj [(''value'', JArr listed_datasets)])"
    by (simp_all add: created_exporter_def reuse_exporter_def orders_exporter_def world0_def
          listing_response_def)
  have c: "pbi_dataset created_exporter = ''Sales''" "pbi_table created_exporter = ''dss-data''"
    "pbi_overwrite created_exporter" "requests (world created_exporter) = []"
    "pbi_dataset reuse_exporter = ''Sales''" "\<not> pbi_overwrite reuse_exporter"
    "pbi_dataset orders_exporter = ''Orders''" "\<not> pbi_overwrite orders_exporter"
    by (simp_all add: created_exporter_def reuse_exporter_def orders_exporter_def world0_def)
  have i1: "[JStr ''a1'', JStr ''c3''] = map (\<lambda>d. the (field ''id'' d))
                 (filter (\<lambda>d. field ''name'' d = Some (JStr (pbi_dataset created_exporter))) listed_datasets)"
    and i2: "[JStr ''a1'', JStr ''c3''] = map (\<lambda>d. the (field ''id'' d))
                 (filter (\<lambda>d. field ''name'' d = Some (JStr (pbi_dataset reuse_exporter))) listed_datasets)"
    and i3: "[] = map (\<lambda>d. the (field ''id'' d))
                 (filter (\<lambda>d. field ''name'' d = Some (JStr (pbi_dataset orders_exporter))) listed_datasets)"
    by (simp_all add: c sales_ids orders_ids)
  have h1: "?history = requests (world created_exporter) @ [GET DATASETS_API]
                     @ map (\<lambda>i. DELETE (DATASET_URL DATASETS_API i)) [JStr ''a1'', JStr ''c3'']
                     @ [POST DATASETS_API
                          (JObj [(''name'', JStr (pbi_dataset created_exporter)),
                                (''defaultMode'', JStr ''PushStreaming''),
                                (''tables'',
                                 JArr [JObj [(''name'', JStr (pbi_table created_exporter)),
                                             (''columns'',
                                              JArr (map (\<lambda>c.
                                                JObj [(''name'', JStr (col_name c)),
                                                      (''dataType'',
                                                       JStr (if col_type c = ''boolean'' then ''Boolean''
                                                             else if col_type c \<in> {''tinyint'', ''smallint'', ''int'', ''bigint''} then ''Int64''
                                                             else if col_type c \<in> {''float'', ''double''} then ''Double''
                                                             else if col_type c = ''date'' then ''dateTime''
                                                             else ''String''))]) sales_schema))]])])]"
    by (simp add: c sales_schema_def)
  note over = open_exporter_binds_dataset
    [where srv = demo_server and self = created_exporter and ds = listed_datasets
       and kvs = "[(''value'', JArr listed_datasets)]" and sch = sales_schema
       and ids = "[JStr ''a1'', JStr ''c3'']" and history = ?history,
     OF g(1) v l i1 h1]
  note reuse = open_exporter_binds_dataset
    [where srv = demo_server and self = reuse_exporter and ds = listed_datasets
       and kvs = "[(''value'', JArr listed_datasets)]" and sch = sales_schema
       and ids = "[JStr ''a1'', JStr ''c3'']", OF g(2) v l i2 refl]
  note orders = open_exporter_binds_dataset
    [where srv = demo_server and self = orders_exporter and ds = listed_datasets
       and kvs = "[(''value'', JArr listed_datasets)]" and sch = sales_schema
       and ids = "[]", OF g(3) v l i3 refl]
  have s: "\<forall>h. status_code (demo_server h) < 400"
  proof
    fix h
    show "status_code (demo_server h) < 400"
      by (cases "last h")
        (simp_all add: listing_response_def deleted_response_def created_response_def)
  qed
  have p: "demo_server ?history = created_response"
    by simp
  have q: "pbi_overwrite created_exporter \<and> (\<forall>h. status_code (demo_server h) < 400)
           \<and> content_type (demo_server ?history) = Some ''application/json; charset=utf-8''
           \<and> contains ''application/json; charset=utf-8'' ''application/json''
           \<and> resp_json (demo_server ?history) = Some (JObj [(''id'', JStr ''ds-new'')])
           \<and> field ''id'' (JObj [(''id'', JStr ''ds-new'')]) = Some (JStr ''ds-new'')
           \<and> JStr ''ds-new'' \<noteq> JNull"
    unfolding p using s c(3) by (simp add: created_response_def)
  from over [THEN conjunct2, THEN conjunct1, rule_format, OF q]
  obtain self' where o: "open_exporter demo_server created_exporter sales_schema = Inr self'"
    by blast
  from c(3) o have "pbi_overwrite created_exporter
      \<and> open_exporter demo_server created_exporter sales_schema = Inr self'"
    by simp
  from over [THEN conjunct1, rule_format, OF this]
  have r: "requests (world self') = ?history"
    and d: "\<exists>d j. resp_json (demo_server ?history) = Some j \<and> field ''id'' j = Some d
              \<and> d \<noteq> JNull \<and> dsid self' = Some d"
    by blast+
  from d have a: "dsid self' = Some (JStr ''ds-new'')"
    unfolding p by (auto simp: created_response_def)
  have "\<not> pbi_overwrite reuse_exporter \<and> [JStr ''a1'', JStr ''c3''] \<noteq> []"
    using c(6) by simp
  from reuse [THEN conjunct2, THEN conjunct2, THEN conjunct1, rule_format, OF this]
  obtain self'' where u: "open_exporter demo_server reuse_exporter sales_schema = Inr self''"
    "dsid self'' = Some (hd [JStr ''a1'', JStr ''c3''])"
    by blast
  have "\<not> pbi_overwrite orders_exporter \<and> ([] :: json list) = []"
    using c(8) by simp
  from orders [THEN conjunct2, THEN conjunct2, THEN conjunct2, rule_format, OF this]
  have e: "open_exporter demo_server orders_exporter sales_schema =
             Inl (SystemExit ''Dataset creation error'')" .
  from o r a u e show ?thesis
    by simp
qed

section \<open>Formatting dates and booleans\<close>


























section \<open>The value transformation\<close>

lemma formatting_pbi_fields:
  "columns_with_date formatting_pbi = Some [''day'']"
  "columns_with_boolean formatting_pbi = Some [''ok'']"
  "json_filter formatting_pbi = Some ParseFormattableValues"
  by (simp_all add: formatting_pbi_def register_formattable_columns_def typed_schema_def
        new_pbi_def)





text \<open>
  Without the hypothesis that no dict stands twice in the list the claim fails: the second
  visit of a dict finds the string that the first visit put in its date column, which has no
  \<^verbatim>\<open>isoformat\<close> method.
\<close>

lemma parse_formattable_values_same_dict_twice:
  "parse_formattable_values formatting_pbi [0, 0] rows_heap =
     Inl (Exception (DateNotFormatted (PStr ''2020-01-02T03:04:05'')))"
  by (simp add: parse_formattable_values_def format_row_def formatting_pbi_fields rows_heap_def
        boolean_check_def)

end
